theory Spec2Isabelle
  imports Complex_Main
begin

section \<open>JavaScript values and string helpers used by the booking pages\<close>

text \<open>
  The booking pages read Firestore documents as \<^verbatim>\<open>Record<string, unknown>\<close> and test
  them with \<^verbatim>\<open>!x\<close>, \<^verbatim>\<open>typeof x === 'object'\<close>, \<^verbatim>\<open>??\<close> and \<^verbatim>\<open>||\<close>.  The values that
  such a document can hold are modelled by \<open>jsval\<close>; an object is an association list
  from property names to values (arrays are objects too, with their indices as names).
  Numbers are exact rationals; \<open>JNaN\<close> is the number NaN.  Strings are lists of 8-bit
  characters.
\<close>

datatype jsval =
    JUndefined
  | JNull
  | JBool bool
  | JNum rat
  | JNaN
  | JStr string
  | JObj "(string \<times> jsval) list"

text \<open>\<^verbatim>\<open>!!v\<close>: the falsy values are undefined, null, false, 0, NaN and the empty string.\<close>

fun truthy :: "jsval \<Rightarrow> bool" where
  "truthy JUndefined = False"
| "truthy JNull = False"
| "truthy (JBool b) = b"
| "truthy (JNum r) = (r \<noteq> 0)"
| "truthy JNaN = False"
| "truthy (JStr s) = (s \<noteq> [])"
| "truthy (JObj kvs) = True"

text \<open>\<^verbatim>\<open>typeof v === 'object'\<close> (which also holds of null).\<close>

fun typeofObject :: "jsval \<Rightarrow> bool" where
  "typeofObject JNull = True"
| "typeofObject (JObj kvs) = True"
| "typeofObject v = False"

text \<open>\<^verbatim>\<open>obj[k]\<close> on a record: the stored value, or undefined.\<close>

definition getProp :: "(string \<times> jsval) list \<Rightarrow> string \<Rightarrow> jsval" where
  "getProp kvs k = (case map_of kvs k of None \<Rightarrow> JUndefined | Some v \<Rightarrow> v)"

text \<open>\<^verbatim>\<open>a ?? b\<close>: the right operand only when the left is null or undefined.\<close>

definition nullish :: "jsval \<Rightarrow> jsval \<Rightarrow> jsval" where
  "nullish a b = (if a = JUndefined \<or> a = JNull then b else a)"

text \<open>\<^verbatim>\<open>a || b\<close>: the right operand only when the left is falsy.\<close>

definition orElse :: "jsval \<Rightarrow> jsval \<Rightarrow> jsval" where
  "orElse a b = (if truthy a then a else b)"

definition isDigit :: "char \<Rightarrow> bool" where
  "isDigit c = (c \<in> set ''0123456789'')"

definition digitVal :: "char \<Rightarrow> nat" where
  "digitVal c = of_char c - 48"

definition digitChar :: "nat \<Rightarrow> char" where
  "digitChar n = ''0123456789'' ! n"

text \<open>
  White space as \<^verbatim>\<open>String.prototype.trim\<close> and \<^verbatim>\<open>parseInt\<close> skip it, restricted to the
  8-bit characters: tab, line feed, vertical tab, form feed, carriage return, space and
  the no-break space.
\<close>

definition isSpace :: "char \<Rightarrow> bool" where
  "isSpace c = (c \<in> {CHR 0x09, CHR 0x0A, CHR 0x0B, CHR 0x0C, CHR 0x0D, CHR 0x20, CHR 0xA0})"

definition trim :: "string \<Rightarrow> string" where
  "trim s = rev (dropWhile isSpace (rev (dropWhile isSpace s)))"

definition startsWith :: "string \<Rightarrow> string \<Rightarrow> bool" where
  "startsWith s p = (take (length p) s = p)"

text \<open>\<^verbatim>\<open>s.split(sep)\<close> for a one-character separator; the result is never empty.\<close>

fun split :: "char \<Rightarrow> string \<Rightarrow> string list" where
  "split sep [] = [[]]"
| "split sep (c # cs) =
     (if c = sep then [] # split sep cs
      else (case split sep cs of
              [] \<Rightarrow> [[c]]
            | w # ws \<Rightarrow> (c # w) # ws))"

definition digitsValue :: "string \<Rightarrow> nat" where
  "digitsValue ds = foldl (\<lambda>a c. 10 * a + digitVal c) 0 ds"

text \<open>
  \<^verbatim>\<open>parseInt(s, 10)\<close>: skip leading white space, read an optional sign, then the longest
  run of decimal digits; \<open>None\<close> is NaN (no digit was found).
\<close>

definition parseInt :: "string \<Rightarrow> int option" where
  "parseInt s =
     (let t = dropWhile isSpace s;
          neg = (t \<noteq> [] \<and> hd t = CHR ''-'');
          u = (if t \<noteq> [] \<and> (hd t = CHR ''-'' \<or> hd t = CHR ''+'') then tl t else t);
          ds = takeWhile isDigit u
      in if ds = [] then None
         else Some (if neg then - int (digitsValue ds) else int (digitsValue ds)))"

text \<open>\<^verbatim>\<open>String(n)\<close> for an integer \<open>n\<close>, and \<^verbatim>\<open>padStart(2, '0')\<close>.\<close>

fun string_of_nat :: "nat \<Rightarrow> string" where
  "string_of_nat n =
     (if n < 10 then [digitChar n]
      else string_of_nat (n div 10) @ [digitChar (n mod 10)])"

declare string_of_nat.simps [simp del]

definition string_of_int :: "int \<Rightarrow> string" where
  "string_of_int i = (if i < 0 then CHR ''-'' # string_of_nat (nat (- i)) else string_of_nat (nat i))"

definition padStart2 :: "string \<Rightarrow> string" where
  "padStart2 s = replicate (2 - length s) (CHR ''0'') @ s"

text \<open>\<^verbatim>\<open>Math.round\<close> rounds halves upwards; \<^verbatim>\<open>Math.ceil\<close> and \<^verbatim>\<open>Math.floor\<close> are HOL's.\<close>

definition mathRound :: "rat \<Rightarrow> int" where
  "mathRound x = \<lfloor>x + 1 / 2\<rfloor>"

text \<open>JavaScript's \<^verbatim>\<open>%\<close> on integers: the result has the sign of the dividend.\<close>

definition jsRem :: "int \<Rightarrow> int \<Rightarrow> int" where
  "jsRem a b = sgn a * (\<bar>a\<bar> mod \<bar>b\<bar>)"


section \<open>Phone normaliser\<close>

text \<open>
  \<^verbatim>\<open>toE164UK(raw)\<close>.  \<open>None\<close> as argument stands for null or undefined, \<open>None\<close> as result
  for null; a falsy argument (also the empty string) gives null.
\<close>

definition toE164UK :: "string option \<Rightarrow> string option" where
  "toE164UK raw =
     (case raw of
        None \<Rightarrow> None
      | Some r \<Rightarrow>
          if r = [] then None
          else
            let digits = filter isDigit r in
            if startsWith digits ''0'' \<and> length digits \<ge> 10 then Some (''+44'' @ drop 1 digits)
            else if startsWith digits ''44'' then Some (''+'' @ digits)
            else if startsWith (trim r) ''+'' then Some (trim r)
            else Some (''+'' @ digits))"

text \<open>
  The normalisation rule in the words of the specification: the digit-only projection
  \<open>d\<close> of the input decides, in this order, between replacing a leading 0 by +44,
  prefixing +, keeping the trimmed input, and prefixing + again.
\<close>

definition phoneRule :: "string \<Rightarrow> string" where
  "phoneRule raw =
     (let d = filter (\<lambda>c. c \<in> set ''0123456789'') raw in
      if d \<noteq> [] \<and> hd d = CHR ''0'' \<and> 10 \<le> length d then ''+44'' @ tl d
      else if 2 \<le> length d \<and> d ! 0 = CHR ''4'' \<and> d ! 1 = CHR ''4'' then CHR ''+'' # d
      else if trim raw \<noteq> [] \<and> hd (trim raw) = CHR ''+'' then trim raw
      else CHR ''+'' # d)"


section \<open>Availability model\<close>

record dayAvail =
  available :: bool
  start :: jsval
  "end" :: jsval

definition toUpperChar :: "char \<Rightarrow> char" where
  "toUpperChar c =
     (case map_of (zip ''abcdefghijklmnopqrstuvwxyz'' ''ABCDEFGHIJKLMNOPQRSTUVWXYZ'') c of
        None \<Rightarrow> c
      | Some u \<Rightarrow> u)"

text \<open>\<^verbatim>\<open>lower.charAt(0).toUpperCase() + lower.slice(1)\<close>, on ASCII letters.\<close>

definition titleCaseDay :: "string \<Rightarrow> string" where
  "titleCaseDay lower = map toUpperChar (take 1 lower) @ drop 1 lower"

text \<open>
  \<^verbatim>\<open>getDayAvail(availObj, weekdayLower)\<close>.  The two time fields are whatever truthy value
  the record stores (a string in well-formed data), or the defaults.
\<close>

definition getDayAvail :: "jsval \<Rightarrow> string \<Rightarrow> dayAvail option" where
  "getDayAvail availObj weekdayLower =
     (if \<not> truthy availObj \<or> \<not> typeofObject availObj then None
      else case availObj of
        JObj obj \<Rightarrow>
          (let a = nullish (getProp obj weekdayLower) (getProp obj (titleCaseDay weekdayLower)) in
           if \<not> truthy a \<or> \<not> typeofObject a then None
           else case a of
             JObj aRec \<Rightarrow>
               Some \<lparr> available = truthy (getProp aRec ''available''),
                      start = orElse (getProp aRec ''startTime'')
                                (orElse (getProp aRec ''from'') (JStr ''07:00'')),
                      end = orElse (getProp aRec ''endTime'')
                              (orElse (getProp aRec ''to'') (JStr ''20:00'')) \<rparr>
           | _ \<Rightarrow> None)
      | _ \<Rightarrow> None)"


section \<open>Booking helpers\<close>

text \<open>
  \<^verbatim>\<open>addHoursToTime(hhmm, hoursFloat)\<close>.  A start time that does not parse makes every
  number NaN, and the template prints \<^verbatim>\<open>NaN:NaN\<close>.
\<close>

definition addHoursToTime :: "string \<Rightarrow> rat \<Rightarrow> string" where
  "addHoursToTime hhmm hoursFloat =
     (let parts = split (CHR '':'') hhmm;
          hStr = hd parts;
          mStr = (if length parts < 2 \<or> parts ! 1 = [] then ''0'' else parts ! 1)
      in case (parseInt hStr, parseInt mStr) of
           (Some h, Some m) \<Rightarrow>
             (let minutes = h * 60 + m + mathRound (hoursFloat * 60);
                  endH = minutes div 60;
                  endM = jsRem minutes 60
              in padStart2 (string_of_int endH) @ '':'' @ padStart2 (string_of_int endM))
         | _ \<Rightarrow> ''NaN:NaN'')"

section \<open>Pricing engine\<close>

record quote =
  estimatedHours :: rat
  baseEstimatedHours :: rat
  teamApplied :: bool
  addOnsTotal :: rat
  suppliesFee :: rat
  labour :: rat
  totalPrice :: rat

definition roundUpToHalf :: "rat \<Rightarrow> rat" where
  "roundUpToHalf x = of_int \<lceil>x * 2\<rceil> / 2"

text \<open>\<^verbatim>\<open>Math.round(x * 100) / 100\<close>, the rounding to two decimal places of every variant.\<close>

definition round2 :: "rat \<Rightarrow> rat" where
  "round2 x = of_int (mathRound (x * 100)) / 100"

text \<open>
  Arithmetic on numbers that may be NaN (\<open>None\<close>), as it arises from \<^verbatim>\<open>parseInt\<close> and
  from a failed table lookup; \<^verbatim>\<open>x || 0\<close> replaces NaN by 0.
\<close>

definition jsAdd :: "rat option \<Rightarrow> rat option \<Rightarrow> rat option" where
  "jsAdd a b = (case (a, b) of (Some x, Some y) \<Rightarrow> Some (x + y) | _ \<Rightarrow> None)"

definition jsMul :: "rat option \<Rightarrow> rat option \<Rightarrow> rat option" where
  "jsMul a b = (case (a, b) of (Some x, Some y) \<Rightarrow> Some (x * y) | _ \<Rightarrow> None)"

definition orZero :: "rat option \<Rightarrow> rat" where
  "orZero a = (case a of None \<Rightarrow> 0 | Some x \<Rightarrow> x)"

definition CLEAN_MULTIPLIER :: "(string \<times> rat) list" where
  "CLEAN_MULTIPLIER =
     [(''quite-clean'', 9 / 10), (''average'', 1), (''quite-dirty'', 5 / 4), (''filthy'', 8 / 5)]"

text \<open>\<^verbatim>\<open>form.cleanliness ? (CLEAN_MULTIPLIER[form.cleanliness] ?? 1) : 1\<close>\<close>

definition cleanMult :: "string \<Rightarrow> rat" where
  "cleanMult cleanliness =
     (if cleanliness = [] then 1
      else case map_of CLEAN_MULTIPLIER cleanliness of None \<Rightarrow> 1 | Some m \<Rightarrow> m)"

text \<open>The date of a job is a local time stamp in milliseconds, on a time line without
  daylight-saving shifts; day 0 is Thursday 1 January 1970.\<close>

definition msPerHour :: int where
  "msPerHour = 3600000"

definition msPerDay :: int where
  "msPerDay = 86400000"

definition dayOf :: "int \<Rightarrow> int" where
  "dayOf t = t div msPerDay"

text \<open>\<^verbatim>\<open>Date.prototype.getDay\<close>: 0 is Sunday, 6 is Saturday.\<close>

definition getDay :: "int \<Rightarrow> int" where
  "getDay t = (dayOf t + 4) mod 7"

record extras =
  fridge :: rat
  freezer :: rat
  dishwasher :: rat
  cupboards :: rat

record room =
  typeId :: string
  sizeId :: string

subsection \<open>Home clean\<close>

text \<open>
  The form state.  The five room counts, \<open>additionalRooms\<close> and \<open>addOns\<close> exist on the
  home-clean page only; the other pages keep their rooms and extras in separate state.
\<close>

record bookingForm =
  customerName :: string
  customerEmail :: string
  customerPhone :: string
  bedrooms :: string
  livingRooms :: string
  kitchens :: string
  bathrooms :: string
  utilityRooms :: string
  cleanliness :: string
  additionalRooms :: "string list"
  addOns :: "string list"
  products :: string
  addressLine1 :: string
  town :: string
  postcode :: string
  serviceType :: string

definition HOME_HOURLY_RATE :: rat where "HOME_HOURLY_RATE = 28"
definition HOME_MIN_HOURS :: rat where "HOME_MIN_HOURS = 2"
definition HOME_SUPPLIES_FEE :: rat where "HOME_SUPPLIES_FEE = 5"
definition HOME_TEAM_THRESHOLD_HOURS :: rat where "HOME_TEAM_THRESHOLD_HOURS = 4"
definition HOME_TEAM_FACTOR :: rat where "HOME_TEAM_FACTOR = 8 / 5"

text \<open>\<^verbatim>\<open>const n = (s) => (s ? parseInt(s, 10) : 0)\<close>\<close>

definition nOf :: "string \<Rightarrow> rat option" where
  "nOf s = (if s = [] then Some 0 else map_option of_int (parseInt s))"

text \<open>The pound sign of the add-on labels is the Latin-1 character 0xA3.\<close>

definition poundLabel :: "string \<Rightarrow> string \<Rightarrow> string" where
  "poundLabel name amount = name @ '' ('' @ [CHR 0xA3] @ amount @ '')''"

definition homeAddOnPrice :: "(string \<times> rat) list" where
  "homeAddOnPrice =
     [(poundLabel ''Fridge'' ''20'', 20), (poundLabel ''Freezer'' ''20'', 20),
      (poundLabel ''Oven'' ''40'', 40), (poundLabel ''Ironing'' ''30'', 30),
      (poundLabel ''Blind cleaning'' ''20'', 20), (''Kitchen cupboards (each)'', 0)]"

text \<open>
  The last lines of \<^verbatim>\<open>pricing\<close> are the same text on the home page and on both office
  pages, up to the constants: the floor at the minimum, the team rule, the second rounding
  and the money.  \<open>raw\<close> is \<^verbatim>\<open>rawHours || 0\<close>.
\<close>

definition teamQuote ::
  "rat \<Rightarrow> rat \<Rightarrow> rat \<Rightarrow> rat \<Rightarrow> rat \<Rightarrow> rat \<Rightarrow> rat \<Rightarrow> quote" where
  "teamQuote minHours threshold factor raw addOnsT supplies rate =
     (let base = max minHours (roundUpToHalf raw);
          team = (base > threshold);
          effectiveUnrounded = (if team then base / factor else base);
          effective = max minHours (roundUpToHalf effectiveUnrounded);
          lab = effective * rate
      in \<lparr> estimatedHours = effective, baseEstimatedHours = base, teamApplied = team,
            addOnsTotal = addOnsT, suppliesFee = supplies, labour = lab,
            totalPrice = of_int (mathRound ((lab + addOnsT + supplies) * 100)) / 100 \<rparr>)"

definition pricingHome :: "bookingForm \<Rightarrow> quote" where
  "pricingHome form =
     (let rawHours =
            jsAdd (jsAdd (jsAdd (jsAdd (jsAdd
              (jsMul (nOf (bedrooms form)) (Some 1))
              (jsMul (nOf (livingRooms form)) (Some 1)))
              (jsMul (nOf (kitchens form)) (Some 1)))
              (jsMul (nOf (bathrooms form)) (Some 1)))
              (jsMul (nOf (utilityRooms form)) (Some (1 / 2))))
              (Some (of_nat (length (additionalRooms form)) * (1 / 2)));
          rawHours' = jsMul rawHours (Some (cleanMult (cleanliness form)));
          addOnsT = foldl (\<lambda>sum key. sum + (case map_of homeAddOnPrice key of None \<Rightarrow> 0 | Some p \<Rightarrow> p))
                      0 (addOns form);
          supplies = (if products form = ''bring'' then HOME_SUPPLIES_FEE else 0)
      in teamQuote HOME_MIN_HOURS HOME_TEAM_THRESHOLD_HOURS HOME_TEAM_FACTOR
           (orZero rawHours') addOnsT supplies HOME_HOURLY_RATE)"

subsection \<open>Office clean\<close>

definition OFFICE_WEEKDAY_HOURLY_RATE :: rat where "OFFICE_WEEKDAY_HOURLY_RATE = 30"
definition OFFICE_WEEKEND_HOURLY_RATE :: rat where "OFFICE_WEEKEND_HOURLY_RATE = 32"
definition OFFICE_MIN_HOURS :: rat where "OFFICE_MIN_HOURS = 2"
definition OFFICE_SUPPLIES_FEE :: rat where "OFFICE_SUPPLIES_FEE = 5"
definition OFFICE_TEAM_THRESHOLD_HOURS :: rat where "OFFICE_TEAM_THRESHOLD_HOURS = 4"
definition OFFICE_TEAM_FACTOR :: rat where "OFFICE_TEAM_FACTOR = 17 / 10"
definition PER_CUBICLE_HOURS :: rat where "PER_CUBICLE_HOURS = 7 / 20"

definition OFFICE_SIZE_WEIGHT :: "(string \<times> rat) list" where
  "OFFICE_SIZE_WEIGHT =
     [(''xs'', 3 / 10), (''s'', 1 / 2), (''m'', 4 / 5), (''l'', 11 / 10), (''xl'', 8 / 5)]"

definition OFFICE_ROOM_MULTIPLIER :: "(string \<times> rat) list" where
  "OFFICE_ROOM_MULTIPLIER =
     [(''open-plan'', 7 / 5), (''meeting'', 6 / 5), (''private-office'', 1), (''reception'', 11 / 10),
      (''corridor'', 7 / 10), (''storage'', 4 / 5), (''kitchen'', 13 / 10), (''bathroom'', 6 / 5)]"

text \<open>\<^verbatim>\<open>TABLE.find((s) => s.id === id)?.weight ?? 0\<close>\<close>

definition findOr0 :: "(string \<times> rat) list \<Rightarrow> string \<Rightarrow> rat" where
  "findOr0 table k = (case map_of table k of None \<Rightarrow> 0 | Some w \<Rightarrow> w)"

definition roomHours :: "(string \<times> rat) list \<Rightarrow> (string \<times> rat) list \<Rightarrow> room list \<Rightarrow> rat" where
  "roomHours sizes types rooms =
     foldl (\<lambda>acc r. acc + findOr0 sizes (sizeId r) * findOr0 types (typeId r)) 0 rooms"

definition ADDON_PRICES :: extras where
  "ADDON_PRICES = \<lparr> fridge = 20, freezer = 25, dishwasher = 10, cupboards = 0 \<rparr>"

definition ADDON_HOURS :: extras where
  "ADDON_HOURS = \<lparr> fridge = 1 / 2, freezer = 3 / 4, dishwasher = 1 / 4, cupboards = 1 / 4 \<rparr>"

definition extrasTimes :: "extras \<Rightarrow> extras \<Rightarrow> rat" where
  "extrasTimes ex table =
     fridge ex * fridge table + freezer ex * freezer table
       + dishwasher ex * dishwasher table + cupboards ex * cupboards table"

definition isWeekend :: "int option \<Rightarrow> bool" where
  "isWeekend date = (case date of None \<Rightarrow> False | Some t \<Rightarrow> getDay t = 0 \<or> getDay t = 6)"

definition pricingOffice :: "room list \<Rightarrow> extras \<Rightarrow> string \<Rightarrow> string \<Rightarrow> int option \<Rightarrow> quote" where
  "pricingOffice rooms ex cleanlinessLevel productsChoice selectedDate =
     (let rh = roomHours OFFICE_SIZE_WEIGHT OFFICE_ROOM_MULTIPLIER rooms;
          bathroomsCountForTime = length (filter (\<lambda>r. typeId r = ''bathroom'') rooms);
          toiletsHours = of_nat bathroomsCountForTime * PER_CUBICLE_HOURS;
          addOnHours = extrasTimes ex ADDON_HOURS;
          raw = (rh + toiletsHours + addOnHours) * cleanMult cleanlinessLevel;
          addOnsT = extrasTimes ex ADDON_PRICES;
          supplies = (if productsChoice = ''bring'' then OFFICE_SUPPLIES_FEE else 0);
          hourlyRate = (if isWeekend selectedDate then OFFICE_WEEKEND_HOURLY_RATE
                        else OFFICE_WEEKDAY_HOURLY_RATE)
      in teamQuote OFFICE_MIN_HOURS OFFICE_TEAM_THRESHOLD_HOURS OFFICE_TEAM_FACTOR
           raw addOnsT supplies hourlyRate)"

subsection \<open>Office clean, the older page\<close>

definition OLD_HOURLY_RATE :: rat where "OLD_HOURLY_RATE = 28"
definition OLD_MIN_HOURS :: rat where "OLD_MIN_HOURS = 2"
definition OLD_SUPPLIES_FEE :: rat where "OLD_SUPPLIES_FEE = 5"
definition OLD_TEAM_THRESHOLD_HOURS :: rat where "OLD_TEAM_THRESHOLD_HOURS = 6"
definition OLD_TEAM_FACTOR :: rat where "OLD_TEAM_FACTOR = 17 / 10"

definition OLD_SIZE_WEIGHT :: "(string \<times> rat) list" where
  "OLD_SIZE_WEIGHT = [(''s'', 1 / 2), (''m'', 4 / 5), (''l'', 11 / 10), (''xl'', 8 / 5)]"

definition OLD_ROOM_MULTIPLIER :: "(string \<times> rat) list" where
  "OLD_ROOM_MULTIPLIER =
     [(''open-plan'', 6 / 5), (''meeting'', 1), (''private-office'', 4 / 5), (''reception'', 9 / 10),
      (''corridor'', 1 / 2), (''storage'', 3 / 5)]"

definition KITCHEN_SIZE_WEIGHT :: "(string \<times> rat) list" where
  "KITCHEN_SIZE_WEIGHT = [(''s'', 1 / 2), (''m'', 4 / 5), (''l'', 11 / 10), (''xl'', 8 / 5)]"

text \<open>
  \<^verbatim>\<open>kitchenSizeId ? KITCHEN_SIZE_WEIGHT[kitchenSizeId] : 0\<close>: a size that the table lacks
  reads undefined, and the product with it is NaN.
\<close>

definition pricingOfficeOld ::
  "room list \<Rightarrow> rat \<Rightarrow> string \<Rightarrow> rat \<Rightarrow> rat \<Rightarrow> extras \<Rightarrow> string \<Rightarrow> string \<Rightarrow> quote" where
  "pricingOfficeOld rooms kitchensCount kitchenSizeId toiletRoomsCount avgCubicles ex
       cleanlinessLevel productsChoice =
     (let rh = roomHours OLD_SIZE_WEIGHT OLD_ROOM_MULTIPLIER rooms;
          kitchenW = (if kitchenSizeId = [] then Some 0 else map_of KITCHEN_SIZE_WEIGHT kitchenSizeId);
          kitchensHours = jsMul (Some kitchensCount) kitchenW;
          totalCubicles = toiletRoomsCount * max 1 avgCubicles;
          toiletsHours = totalCubicles * PER_CUBICLE_HOURS;
          raw = jsAdd (jsAdd (Some rh) kitchensHours) (Some toiletsHours);
          raw' = jsMul raw (Some (cleanMult cleanlinessLevel));
          addOnsT = extrasTimes ex ADDON_PRICES;
          supplies = (if productsChoice = ''bring'' then OLD_SUPPLIES_FEE else 0)
      in teamQuote OLD_MIN_HOURS OLD_TEAM_THRESHOLD_HOURS OLD_TEAM_FACTOR
           (orZero raw') addOnsT supplies OLD_HOURLY_RATE)"

subsection \<open>One-room promotion\<close>

definition PROMO_MIN_HOURS :: rat where "PROMO_MIN_HOURS = 1"
definition DEPOSIT_AMOUNT :: rat where "DEPOSIT_AMOUNT = 25"
definition PROMO_TEAM_THRESHOLD_HOURS :: rat where "PROMO_TEAM_THRESHOLD_HOURS = 4"
definition PROMO_TEAM_FACTOR :: rat where "PROMO_TEAM_FACTOR = 17 / 10"

definition pricingPromo :: quote where
  "pricingPromo =
     \<lparr> estimatedHours = 1, baseEstimatedHours = 1, teamApplied = False,
       addOnsTotal = 0, suppliesFee = 0, labour = 0, totalPrice = DEPOSIT_AMOUNT \<rparr>"

section \<open>Blocked-date scanner and booking conflict filter\<close>

text \<open>
  A staff document, with the numeric fields typed as the data model types them: the
  field is a number or is absent.  \<open>active\<close> is absent, true or false.
\<close>

record staffMember =
  active :: "bool option"
  availability :: jsval
  minNoticeHours :: "rat option"
  travelBufferMins :: "rat option"

record booking =
  startTime :: jsval
  endTime :: jsval

datatype error = FetchFailed | TypeError

definition ALL_TIMES :: "string list" where
  "ALL_TIMES = [''7'', ''8'', ''9'', ''10'', ''11'', ''12'', ''13'', ''14'', ''15'', ''16'', ''17'',
                ''18'', ''19'', ''20'']"

text \<open>\<^verbatim>\<open>toLocaleDateString('en-GB', { weekday: 'long' }).toLowerCase()\<close>\<close>

definition weekdayName :: "int \<Rightarrow> string" where
  "weekdayName t =
     [''sunday'', ''monday'', ''tuesday'', ''wednesday'', ''thursday'', ''friday'', ''saturday'']
       ! nat (getDay t)"

text \<open>\<^verbatim>\<open>s.active !== false\<close>\<close>

definition isActive :: "staffMember \<Rightarrow> bool" where
  "isActive s = (active s \<noteq> Some False)"

text \<open>\<^verbatim>\<open>getDayAvail(s.availability, weekday)?.available === true\<close>\<close>

definition availableOn :: "string \<Rightarrow> staffMember \<Rightarrow> bool" where
  "availableOn weekday s =
     (case getDayAvail (availability s) weekday of None \<Rightarrow> False | Some av \<Rightarrow> available av)"

text \<open>\<^verbatim>\<open>new Date(x)\<close> keeps the integral part of a time value.\<close>

definition jsTrunc :: "rat \<Rightarrow> int" where
  "jsTrunc x = (if x \<ge> 0 then \<lfloor>x\<rfloor> else \<lceil>x\<rceil>)"

text \<open>\<^verbatim>\<open>new Date(Date.now() + hours * 3600_000)\<close>\<close>

definition cutoffDate :: "int \<Rightarrow> rat \<Rightarrow> int" where
  "cutoffDate now hours = jsTrunc (of_int now + hours * 3600000)"

text \<open>\<^verbatim>\<open>Number(s['minNoticeHours'] ?? 12)\<close>; in \<open>loadTimes\<close> an absent field is NaN first and
  then 12 as well.\<close>

definition noticeOr12 :: "staffMember \<Rightarrow> rat" where
  "noticeOr12 s = (case minNoticeHours s of None \<Rightarrow> 12 | Some v \<Rightarrow> v)"

text \<open>\<^verbatim>\<open>staff.length > 0 ? Math.min(...staff.map(notice)) : 12\<close>\<close>

definition globalMinNoticeOf :: "staffMember list \<Rightarrow> rat" where
  "globalMinNoticeOf staff =
     (case staff of [] \<Rightarrow> 12 | s # ss \<Rightarrow> foldl min (noticeOr12 s) (map noticeOr12 ss))"

text \<open>
  The loop \<^verbatim>\<open>for (let i = -30; i < 60; i++)\<close> of \<open>computeBlockedDays\<close>, over the remaining
  values of \<open>i\<close>.  A calendar day is identified by its day number, which stands for the
  key \<^verbatim>\<open>ymd(dt)\<close>; \<open>now\<close> is the one reading of the clock that the run uses.
\<close>

fun blockedLoop :: "int \<Rightarrow> staffMember list \<Rightarrow> rat \<Rightarrow> int list \<Rightarrow> int set \<Rightarrow> int set" where
  "blockedLoop now staff globalMinNotice [] blocked = blocked"
| "blockedLoop now staff globalMinNotice (i # rest) blocked =
     (let today0 = dayOf now * msPerDay;
          dt = (dayOf now + i) * msPerDay;
          key = dayOf dt;
          weekday = weekdayName dt
      in if dt < today0 then blockedLoop now staff globalMinNotice rest (insert key blocked)
         else if \<not> list_ex (availableOn weekday) staff
           then blockedLoop now staff globalMinNotice rest (insert key blocked)
         else
           let cutoff = cutoffDate now globalMinNotice;
               endOfDay = dt + 20 * msPerHour
           in if endOfDay < cutoff
                then blockedLoop now staff globalMinNotice rest (insert key blocked)
              else blockedLoop now staff globalMinNotice rest blocked)"

text \<open>
  \<open>computeBlockedDays\<close>: the value that \<^verbatim>\<open>setBlockedDates\<close> receives.  The argument is the
  outcome of the staff query: \<open>Inl\<close> when \<^verbatim>\<open>getDocs\<close> rejects.
\<close>

definition computeBlockedDays :: "int \<Rightarrow> error + staffMember list \<Rightarrow> int set" where
  "computeBlockedDays now staffSnap =
     (case staffSnap of
        Inl e \<Rightarrow> {}
      | Inr docs \<Rightarrow>
          let staff = filter isActive docs
          in blockedLoop now staff (globalMinNoticeOf staff) [-30 .. 59] {})"

definition timeToMinutes :: "string \<Rightarrow> rat option" where
  "timeToMinutes t =
     (let parts = split (CHR '':'') t;
          hh = hd parts;
          mm = (if length parts < 2 then ''0'' else parts ! 1)
      in jsAdd (jsMul (map_option of_int (parseInt hh)) (Some 60)) (map_option of_int (parseInt mm)))"

text \<open>A time field that is not a string has no \<^verbatim>\<open>split\<close> method: the call throws.\<close>

definition timeToMinutesV :: "jsval \<Rightarrow> error + rat option" where
  "timeToMinutesV v = (case v of JStr t \<Rightarrow> Inr (timeToMinutes t) | _ \<Rightarrow> Inl TypeError)"

text \<open>\<^verbatim>\<open>x >= a && x < b\<close>; a comparison with NaN is false.\<close>

definition withinJs :: "rat option \<Rightarrow> rat option \<Rightarrow> rat option \<Rightarrow> bool" where
  "withinJs x a b =
     (case (x, a, b) of (Some x', Some a', Some b') \<Rightarrow> x' \<ge> a' \<and> x' < b' | _ \<Rightarrow> False)"

text \<open>\<^verbatim>\<open>bookings.some(...)\<close> for one staff member's buffer; it stops at the first collision.\<close>

fun collides :: "rat option \<Rightarrow> rat \<Rightarrow> booking list \<Rightarrow> error + bool" where
  "collides slotMins buffer [] = Inr False"
| "collides slotMins buffer (b # bs) =
     (if \<not> truthy (startTime b) \<or> \<not> truthy (endTime b) then collides slotMins buffer bs
      else case timeToMinutesV (startTime b) of
        Inl e \<Rightarrow> Inl e
      | Inr bStart \<Rightarrow>
          (case timeToMinutesV (endTime b) of
             Inl e \<Rightarrow> Inl e
           | Inr bEnd \<Rightarrow>
               (let bsExp = map_option (max 0) (jsAdd bStart (Some (- buffer)));
                    beExp = jsAdd bEnd (Some buffer)
                in if withinJs slotMins bsExp beExp then Inr True
                   else collides slotMins buffer bs)))"

text \<open>\<^verbatim>\<open>Number(s['travelBufferMins'] ?? 30)\<close>\<close>

definition bufferOr30 :: "staffMember \<Rightarrow> rat" where
  "bufferOr30 s = (case travelBufferMins s of None \<Rightarrow> 30 | Some v \<Rightarrow> v)"

text \<open>The loop over \<open>dayStaff\<close> for one slot; the result is \<open>atLeastOne\<close>.\<close>

fun staffLoop :: "rat option \<Rightarrow> booking list \<Rightarrow> string \<Rightarrow> staffMember list \<Rightarrow> error + bool" where
  "staffLoop slotMins bookings weekday [] = Inr False"
| "staffLoop slotMins bookings weekday (s # ss) =
     (case getDayAvail (availability s) weekday of
        None \<Rightarrow> staffLoop slotMins bookings weekday ss
      | Some av \<Rightarrow>
          (if \<not> available av then staffLoop slotMins bookings weekday ss
           else
             (case timeToMinutesV (start av) of
                Inl e \<Rightarrow> Inl e
              | Inr startM \<Rightarrow>
                  (case timeToMinutesV (end av) of
                     Inl e \<Rightarrow> Inl e
                   | Inr endM \<Rightarrow>
                       (if \<not> withinJs slotMins startM endM
                        then staffLoop slotMins bookings weekday ss
                        else
                          (case collides slotMins (bufferOr30 s) bookings of
                             Inl e \<Rightarrow> Inl e
                           | Inr c \<Rightarrow>
                               (if \<not> c then Inr True
                                else staffLoop slotMins bookings weekday ss)))))))"

text \<open>
  The loop over the candidate keys; the result is \<open>refined\<close>.  \<^verbatim>\<open>slotDt\<close> is the selected
  day at the hour that the key starts with; an hour that does not parse gives an invalid
  date, which is not before the cut-off.
\<close>

fun slotLoop ::
  "int \<Rightarrow> int \<Rightarrow> booking list \<Rightarrow> string \<Rightarrow> staffMember list \<Rightarrow> string list \<Rightarrow> error + string list" where
  "slotLoop date noticeCutoff bookings weekday dayStaff [] = Inr []"
| "slotLoop date noticeCutoff bookings weekday dayStaff (k # ks) =
     (let hh = hd (split (CHR '':'') k);
          tooSoon = (case parseInt hh of
                       None \<Rightarrow> False
                     | Some h \<Rightarrow> dayOf date * msPerDay + h * msPerHour < noticeCutoff)
      in if tooSoon then slotLoop date noticeCutoff bookings weekday dayStaff ks
         else case staffLoop (timeToMinutes k) bookings weekday dayStaff of
           Inl e \<Rightarrow> Inl e
         | Inr atLeastOne \<Rightarrow>
             (case slotLoop date noticeCutoff bookings weekday dayStaff ks of
                Inl e \<Rightarrow> Inl e
              | Inr refined \<Rightarrow>
                  Inr (if atLeastOne then hd (split (CHR '':'') k) # refined else refined)))"

text \<open>
  The set \<open>bookedLegacy\<close> of an unavailability document (\<open>None\<close>: the document does not
  exist): the keys of \<^verbatim>\<open>bookedTimeSlots\<close> with a truthy value, or else the legacy fields
  \<^verbatim>\<open>7:00\<close> to \<^verbatim>\<open>20:00\<close> of the document itself.
\<close>

definition bookedLegacyOf :: "(string \<times> jsval) list option \<Rightarrow> string list" where
  "bookedLegacyOf snap =
     (case snap of
        None \<Rightarrow> []
      | Some data \<Rightarrow>
          (let booked = getProp data ''bookedTimeSlots''
           in if truthy booked \<and> typeofObject booked then
                (case booked of
                   JObj kvs \<Rightarrow> filter (\<lambda>t. truthy (getProp kvs t)) (map fst kvs)
                 | _ \<Rightarrow> [])
              else filter (\<lambda>k. truthy (getProp data k))
                     (map (\<lambda>h. string_of_nat h @ '':00'') [7 ..< 21])))"

text \<open>
  The body of the \<^verbatim>\<open>try\<close> block of \<open>loadTimes\<close>.  The three snapshots are the outcomes of
  the awaited reads, in the order of the code; a read is only reached when the earlier
  ones succeeded and no early return was taken.
\<close>

definition loadTimesTry ::
  "int \<Rightarrow> int option \<Rightarrow> int set \<Rightarrow> error + (string \<times> jsval) list option \<Rightarrow> error + booking list
     \<Rightarrow> error + staffMember list \<Rightarrow> error + string list" where
  "loadTimesTry now selectedDate blockedDates unavailSnap bookingsSnap staffSnap =
     (case selectedDate of
        None \<Rightarrow> Inr []
      | Some date \<Rightarrow>
          (if dayOf date \<in> blockedDates then Inr []
           else
             (case unavailSnap of
                Inl e \<Rightarrow> Inl e
              | Inr snap \<Rightarrow>
                  (case bookingsSnap of
                     Inl e \<Rightarrow> Inl e
                   | Inr bookings \<Rightarrow>
                       (case staffSnap of
                          Inl e \<Rightarrow> Inl e
                        | Inr docs \<Rightarrow>
                            (let bookedLegacy = bookedLegacyOf snap;
                                 staff = filter isActive docs;
                                 weekday = weekdayName date;
                                 dayStaff = filter (availableOn weekday) staff
                             in (case dayStaff of
                                   [] \<Rightarrow> Inr []
                                 | s # ss \<Rightarrow>
                                     (let minNotice = foldl min (noticeOr12 s) (map noticeOr12 ss);
                                          noticeCutoff = cutoffDate now minNotice;
                                          candidate = filter (\<lambda>k. k \<notin> set bookedLegacy)
                                                        (map (\<lambda>h. h @ '':00'') ALL_TIMES)
                                      in slotLoop date noticeCutoff bookings weekday dayStaff
                                           candidate))))))))"

text \<open>\<open>loadTimes\<close>: the value that \<^verbatim>\<open>setAvailableTimes\<close> receives, with the \<^verbatim>\<open>catch\<close>.\<close>

definition loadTimes ::
  "int \<Rightarrow> int option \<Rightarrow> int set \<Rightarrow> error + (string \<times> jsval) list option \<Rightarrow> error + booking list
     \<Rightarrow> error + staffMember list \<Rightarrow> string list" where
  "loadTimes now selectedDate blockedDates unavailSnap bookingsSnap staffSnap =
     (case loadTimesTry now selectedDate blockedDates unavailSnap bookingsSnap staffSnap of
        Inl e \<Rightarrow> []
      | Inr refined \<Rightarrow> refined)"

section \<open>Booking submission\<close>

text \<open>
  What \<open>onSubmit\<close> does to the outside is a trace: the alerts it shows and the calls it
  starts, in order.  Of the stored booking the fields below are kept; of the webhook and
  the ledger entries only the kind of call.  \<open>Completed\<close> is the thank-you view.
\<close>

record persisted =
  orderIdOf :: string
  phoneOf :: string
  line1Of :: string
  townOf :: string
  postcodeOf :: string
  dateOf :: int
  startTimeOf :: string
  endTimeOf :: string
  estimatedHoursOf :: rat
  totalPriceOf :: rat
  statusOf :: string

datatype effect =
    Alert string
  | SetBooking persisted
  | WebhookPost
  | AddIncome rat
  | AddExpense
  | Completed

text \<open>
  Which of the awaited calls resolve; a call that rejects throws at its \<^verbatim>\<open>await\<close>.  A
  rejected webhook is caught on the spot and a rejected expense entry is the last call of
  its \<^verbatim>\<open>try\<close> block, so neither changes what is attempted afterwards.
\<close>

record outcomes =
  setDocOk :: bool
  webhookOk :: bool
  incomeOk :: bool
  expenseOk :: bool

definition bookingRecord :: "string \<Rightarrow> string \<Rightarrow> bookingForm \<Rightarrow> int \<Rightarrow> string \<Rightarrow> quote \<Rightarrow> persisted" where
  "bookingRecord orderId phone form date selectedTime q =
     (let bookingTime = selectedTime @ '':00''
      in \<lparr> orderIdOf = orderId, phoneOf = phone, line1Of = addressLine1 form, townOf = town form,
            postcodeOf = postcode form, dateOf = dayOf date, startTimeOf = bookingTime,
            endTimeOf = addHoursToTime bookingTime (estimatedHours q),
            estimatedHoursOf = estimatedHours q, totalPriceOf = totalPrice q,
            statusOf = ''confirmed'' \<rparr>)"

text \<open>\<^verbatim>\<open>toE164UK(form.customerPhone) || form.customerPhone\<close>\<close>

definition normalisedPhone :: "string \<Rightarrow> string" where
  "normalisedPhone phone =
     (case toE164UK (Some phone) of None \<Rightarrow> phone | Some p \<Rightarrow> if p = [] then phone else p)"

definition toLowerChar :: "char \<Rightarrow> char" where
  "toLowerChar c =
     (case map_of (zip ''ABCDEFGHIJKLMNOPQRSTUVWXYZ'' ''abcdefghijklmnopqrstuvwxyz'') c of
        None \<Rightarrow> c
      | Some l \<Rightarrow> l)"

fun includesStr :: "string \<Rightarrow> string \<Rightarrow> bool" where
  "includesStr [] p = (p = [])"
| "includesStr (c # cs) p = (startsWith (c # cs) p \<or> includesStr cs p)"

text \<open>
  \<open>getStaffRateForJob\<close>; the job's date is the booking date, whose key the function
  parses back into the same calendar day.
\<close>

definition getStaffRateForJob :: "string \<Rightarrow> int \<Rightarrow> rat" where
  "getStaffRateForJob service date =
     (let st = map toLowerChar service;
          isWeekendJob = (getDay date = 0 \<or> getDay date = 6);
          isDeep = includesStr st ''deep''
      in if isDeep then (if isWeekendJob then 23 else 21)
         else (if isWeekendJob then 17 else 15))"

text \<open>
  The part after the booking is stored, on the promotion page and the newer office page:
  the webhook inside its own \<^verbatim>\<open>try\<close>, the two ledger entries inside the outer one.
\<close>

definition afterStore :: "outcomes \<Rightarrow> rat \<Rightarrow> rat \<Rightarrow> effect list" where
  "afterStore out amount staffPayTotal =
     [WebhookPost, AddIncome amount]
       @ (if incomeOk out \<and> staffPayTotal > 0 then [AddExpense] else [])
       @ [Completed]"

text \<open>\<open>onSubmit\<close> of the one-room promotion page.\<close>

definition onSubmitPromo ::
  "outcomes \<Rightarrow> string \<Rightarrow> bookingForm \<Rightarrow> int option \<Rightarrow> string \<Rightarrow> effect list" where
  "onSubmitPromo out orderId form selectedDate selectedTime =
     (case selectedDate of
        None \<Rightarrow> [Alert ''Please select date and time.'']
      | Some date \<Rightarrow>
      if selectedTime = [] then [Alert ''Please select date and time.'']
      else if customerName form = [] \<or> customerEmail form = [] \<or> customerPhone form = []
        then [Alert ''Please fill name, email, and phone.'']
      else if addressLine1 form = [] \<or> town form = [] \<or> postcode form = []
        then [Alert ''Please enter your address (line 1, town/city and postcode).'']
      else if products form = []
        then [Alert ''Please select who will provide the cleaning products.'']
      else
        (let q = pricingPromo;
             service = (if serviceType form = [] then ''One Room Clean'' else serviceType form);
             stored = bookingRecord orderId (normalisedPhone (customerPhone form)) form date
                        selectedTime q;
             staffRate = getStaffRateForJob service date;
             staffMultiplier = (if teamApplied q then 2 else 1);
             staffPayTotal = estimatedHours q * staffRate * staffMultiplier
         in SetBooking stored
              # (if setDocOk out then afterStore out (totalPrice q) staffPayTotal else [])))"

text \<open>\<open>onSubmit\<close> of the newer office page; the quote is the page's current \<open>pricing\<close>.\<close>

definition onSubmitOffice ::
  "outcomes \<Rightarrow> string \<Rightarrow> bookingForm \<Rightarrow> quote \<Rightarrow> int option \<Rightarrow> string \<Rightarrow> effect list" where
  "onSubmitOffice out orderId form q selectedDate selectedTime =
     (case selectedDate of
        None \<Rightarrow> [Alert ''Please select date and time.'']
      | Some date \<Rightarrow>
      if selectedTime = [] then [Alert ''Please select date and time.'']
      else if customerName form = [] \<or> customerEmail form = [] \<or> customerPhone form = []
        then [Alert ''Please fill name, email, and phone.'']
      else if addressLine1 form = [] \<or> town form = [] \<or> postcode form = []
        then [Alert ''Please select or enter the site address.'']
      else
        (let stored = bookingRecord orderId (normalisedPhone (customerPhone form)) form date
                        selectedTime q;
             staffMultiplier = (if teamApplied q then 2 else 1);
             staffPayTotal = estimatedHours q * (1221 / 100) * staffMultiplier
         in SetBooking stored
              # (if setDocOk out then afterStore out (totalPrice q) staffPayTotal else [])))"

text \<open>\<open>onSubmit\<close> of the older office page: two checks, then the booking is stored.\<close>

definition onSubmitOfficeOld ::
  "outcomes \<Rightarrow> string \<Rightarrow> bookingForm \<Rightarrow> quote \<Rightarrow> int option \<Rightarrow> string \<Rightarrow> effect list" where
  "onSubmitOfficeOld out orderId form q selectedDate selectedTime =
     (case selectedDate of
        None \<Rightarrow> [Alert ''Please select date and time.'']
      | Some date \<Rightarrow>
      if selectedTime = [] then [Alert ''Please select date and time.'']
      else if customerName form = [] \<or> customerEmail form = [] \<or> customerPhone form = []
        then [Alert ''Please fill name, email, and phone.'']
      else
        (let stored = bookingRecord orderId (customerPhone form) form date selectedTime q
         in SetBooking stored
              # (if setDocOk out then [Alert ''Booking submitted!''] else [])))"

text \<open>
  \<open>onSubmit\<close> of the home-clean page: two checks, the webhook when a URL is configured
  (\<open>zapConfigured\<close>), then the booking is stored.
\<close>

definition onSubmitHome ::
  "bool \<Rightarrow> outcomes \<Rightarrow> string \<Rightarrow> bookingForm \<Rightarrow> int option \<Rightarrow> string \<Rightarrow> effect list" where
  "onSubmitHome zapConfigured out orderId form selectedDate selectedTime =
     (case selectedDate of
        None \<Rightarrow> [Alert ''Please select date and time.'']
      | Some date \<Rightarrow>
      if selectedTime = [] then [Alert ''Please select date and time.'']
      else if customerName form = [] \<or> customerEmail form = [] \<or> customerPhone form = []
        then [Alert ''Please fill name, email, and phone.'']
      else
        (let q = pricingHome form;
             stored = bookingRecord orderId (customerPhone form) form date selectedTime q
         in (if zapConfigured then [WebhookPost] else [])
              @ SetBooking stored
              # (if setDocOk out then [Alert ''Booking submitted!''] else [])))"

text \<open>The calls that write: the stored booking, the webhook and the ledger entries.\<close>

fun isWrite :: "effect \<Rightarrow> bool" where
  "isWrite (Alert msg) = False"
| "isWrite Completed = False"
| "isWrite e = True"


section \<open>Properties stated of the pages\<close>

text \<open>
  The invariant of a quote, for a variant whose minimum is \<open>minHours\<close>: the estimate is
  at least the minimum and the total is the sum of the three charges, rounded to two
  decimal places.
\<close>

definition quoteInvariant :: "rat \<Rightarrow> quote \<Rightarrow> bool" where
  "quoteInvariant minHours q =
     (estimatedHours q \<ge> minHours
      \<and> totalPrice q = round2 (labour q + addOnsTotal q + suppliesFee q))"

text \<open>
  The team-size rule of a quote, for a variant with the given minimum, threshold and team
  factor.
\<close>

definition teamRule :: "rat \<Rightarrow> rat \<Rightarrow> rat \<Rightarrow> quote \<Rightarrow> bool" where
  "teamRule minHours threshold factor q =
     (if baseEstimatedHours q > threshold
      then teamApplied q
           \<and> estimatedHours q = max minHours (roundUpToHalf (baseEstimatedHours q / factor))
           \<and> estimatedHours q \<le> baseEstimatedHours q
      else \<not> teamApplied q \<and> estimatedHours q = baseEstimatedHours q)"

text \<open>A home-clean form with eight bedrooms and no address.\<close>

definition exampleHomeForm :: bookingForm where
  "exampleHomeForm =
     \<lparr> customerName = ''Ann'', customerEmail = ''ann@example.org'', customerPhone = ''07123456789'',
       bedrooms = ''8'', livingRooms = '''', kitchens = '''', bathrooms = '''', utilityRooms = '''',
       cleanliness = ''average'', additionalRooms = [], addOns = [], products = ''bring'',
       addressLine1 = '''', town = '''', postcode = '''', serviceType = ''Cleaning Service'' \<rparr>"

text \<open>
  The record that a day entry yields, in the words of the specification: each time falls
  back to its alternative field and then to its own default, whatever the other time does.
\<close>

definition timeOrDefault :: "jsval \<Rightarrow> jsval \<Rightarrow> string \<Rightarrow> jsval" where
  "timeOrDefault primary alternative dflt =
     (if truthy primary then primary else if truthy alternative then alternative else JStr dflt)"

definition dayRecordOf :: "(string \<times> jsval) list \<Rightarrow> dayAvail" where
  "dayRecordOf aRec =
     \<lparr> available = truthy (getProp aRec ''available''),
       start = timeOrDefault (getProp aRec ''startTime'') (getProp aRec ''from'') ''07:00'',
       end = timeOrDefault (getProp aRec ''endTime'') (getProp aRec ''to'') ''20:00'' \<rparr>"

text \<open>A day entry that names its end only.\<close>

definition exampleDayEntry :: jsval where
  "exampleDayEntry = JObj [(''available'', JBool True), (''endTime'', JStr ''18:00'')]"

text \<open>The same form with an address, and a run in which every call resolves.\<close>

definition exampleHomeFormFull :: bookingForm where
  "exampleHomeFormFull =
     exampleHomeForm \<lparr> addressLine1 := ''1 High Street'', town := ''Leeds'', postcode := ''LS1 1AA'' \<rparr>"

definition allOk :: outcomes where
  "allOk = \<lparr> setDocOk = True, webhookOk = True, incomeOk = True, expenseOk = True \<rparr>"

text \<open>A staff member who works on Thursdays from 07:00 to 21:00.\<close>

definition lateStaff :: staffMember where
  "lateStaff =
     \<lparr> active = None,
       availability = JObj [(''thursday'', JObj [(''available'', JBool True),
                                                (''startTime'', JStr ''07:00''),
                                                (''endTime'', JStr ''21:00'')])],
       minNoticeHours = None, travelBufferMins = None \<rparr>"

text \<open>The bookings that a trace stores, and their end times.\<close>

fun storedBookings :: "effect list \<Rightarrow> persisted list" where
  "storedBookings [] = []"
| "storedBookings (SetBooking p # es) = p # storedBookings es"
| "storedBookings (e # es) = storedBookings es"

definition storedEndTimes :: "effect list \<Rightarrow> string list" where
  "storedEndTimes es = map endTimeOf (storedBookings es)"

text \<open>
  The three reasons for which the specification blocks day \<open>d\<close>, given the staff documents
  and the clock: the day is before today; no active staff member is available on its
  weekday; the clock plus the global minimum notice is after 20:00 of the day.
\<close>

definition blockedBySpec :: "int \<Rightarrow> staffMember list \<Rightarrow> int \<Rightarrow> bool" where
  "blockedBySpec now docs d =
     (let activeStaff = filter isActive docs;
          globalMinNotice = (if activeStaff = [] then 12
                             else Min (set (map noticeOr12 activeStaff)))
      in d < dayOf now
         \<or> \<not> (\<exists>s \<in> set activeStaff. availableOn (weekdayName (d * msPerDay)) s)
         \<or> d * msPerDay + 20 * msPerHour < cutoffDate now globalMinNotice)"

text \<open>A staff member who works on Thursdays from 09:00 to 17:00 and asks for 48 hours.\<close>

definition thursdayStaff :: staffMember where
  "thursdayStaff =
     \<lparr> active = Some True,
       availability = JObj [(''thursday'', JObj [(''available'', JBool True),
                                                (''startTime'', JStr ''09:00''),
                                                (''endTime'', JStr ''17:00'')])],
       minNoticeHours = Some 48, travelBufferMins = Some 30 \<rparr>"

text \<open>A booking document whose start time is a number instead of a string.\<close>

definition brokenBooking :: booking where
  "brokenBooking = \<lparr> startTime = JNum 12, endTime = JStr ''13:00'' \<rparr>"

text \<open>
  Whether the slot loop keeps key \<open>k\<close>: the slot is not before the notice cut-off and the
  staff loop ends with \<open>atLeastOne\<close> set.
\<close>

definition slotKept ::
  "int \<Rightarrow> int \<Rightarrow> booking list \<Rightarrow> string \<Rightarrow> staffMember list \<Rightarrow> string \<Rightarrow> bool" where
  "slotKept date noticeCutoff bookings weekday dayStaff k =
     ((case parseInt (hd (split (CHR '':'') k)) of
         None \<Rightarrow> True
       | Some h \<Rightarrow> noticeCutoff \<le> dayOf date * msPerDay + h * msPerHour)
      \<and> staffLoop (timeToMinutes k) bookings weekday dayStaff = Inr True)"

text \<open>
  The roster and the booking of the buffer example: one staff member, working from 09:00
  to 17:00 on weekday \<open>wd\<close> with a travel buffer of 30 minutes, and one booking from 12:00
  to 13:00.
\<close>

definition nineToFive :: "string \<Rightarrow> rat option \<Rightarrow> staffMember" where
  "nineToFive wd notice =
     \<lparr> active = Some True,
       availability = JObj [(wd, JObj [(''available'', JBool True),
                                       (''startTime'', JStr ''09:00''),
                                       (''endTime'', JStr ''17:00'')])],
       minNoticeHours = notice, travelBufferMins = Some 30 \<rparr>"

definition noonBooking :: booking where
  "noonBooking = \<lparr> startTime = JStr ''12:00'', endTime = JStr ''13:00'' \<rparr>"

text \<open>The hour that a slot label names.\<close>

definition hourOf :: "string \<Rightarrow> nat" where
  "hourOf label = digitsValue label"

text \<open>
  The fields that \<open>onSubmit\<close> of the promotion page and of the newer office page test
  before anything else: a date, a time slot, name, email, phone, and the three address
  fields.
\<close>

definition requiredMissing :: "bookingForm \<Rightarrow> int option \<Rightarrow> string \<Rightarrow> bool" where
  "requiredMissing form selectedDate selectedTime =
     (selectedDate = None \<or> selectedTime = []
      \<or> customerName form = [] \<or> customerEmail form = [] \<or> customerPhone form = []
      \<or> addressLine1 form = [] \<or> town form = [] \<or> postcode form = [])"


section \<open>Pricing engine: proofs\<close>

lemma roundUpToHalf_ge: "x \<le> roundUpToHalf x"
proof -
  have "x * 2 \<le> of_int \<lceil>x * 2\<rceil>" by (rule le_of_int_ceiling)
  then show ?thesis by (simp add: roundUpToHalf_def)
qed

lemma roundUpToHalf_mono: "x \<le> y \<Longrightarrow> roundUpToHalf x \<le> roundUpToHalf y"
  by (simp add: roundUpToHalf_def ceiling_mono divide_right_mono)

lemma roundUpToHalf_idem: "roundUpToHalf (roundUpToHalf x) = roundUpToHalf x"
  by (simp add: roundUpToHalf_def)

lemma roundUpToHalf_max_fix:
  assumes "roundUpToHalf m = m"
  shows "roundUpToHalf (max m (roundUpToHalf x)) = max m (roundUpToHalf x)"
  using assms by (simp add: max_def roundUpToHalf_idem)

lemma roundUpToHalf_two: "roundUpToHalf 2 = 2"
  by (simp add: roundUpToHalf_def)

lemma teamQuote_invariant: "quoteInvariant m (teamQuote m t f raw a s r)"
  by (simp add: quoteInvariant_def teamQuote_def Let_def round2_def)

text \<open>
  The base estimate is a multiple of one half and at least the minimum.  Dividing it by
  a factor of at least 1 does not increase it, and rounding up to a half cannot pass the
  base again, since the base is itself a multiple of one half.
\<close>

lemma teamQuote_teamRule:
  assumes m: "roundUpToHalf m = m" and m0: "0 \<le> m" and f: "1 \<le> f"
  shows "teamRule m t f (teamQuote m t f raw a s r)"
proof -
  define base where "base = max m (roundUpToHalf raw)"
  have fixb: "roundUpToHalf base = base"
    unfolding base_def using m by (rule roundUpToHalf_max_fix)
  have mb: "m \<le> base" by (simp add: base_def)
  have b0: "0 \<le> base" using m0 mb by simp
  have "base * 1 \<le> base * f" using f b0 by (rule mult_left_mono)
  moreover have "0 < f" using f by simp
  ultimately have "base / f \<le> base" by (simp add: pos_divide_le_eq)
  then have "roundUpToHalf (base / f) \<le> roundUpToHalf base" by (rule roundUpToHalf_mono)
  then have le: "max m (roundUpToHalf (base / f)) \<le> base" using fixb mb by simp
  have same: "max m (roundUpToHalf base) = base" using fixb mb by simp
  show ?thesis
    using le same by (simp add: teamRule_def teamQuote_def Let_def base_def[symmetric])
qed

lemma example_home_base: "baseEstimatedHours (pricingHome exampleHomeForm) = 8"
  by code_simp

lemma example_home_hours: "estimatedHours (pricingHome exampleHomeForm) = 5"
  by code_simp

text \<open>
  Claim C1, as the specification states it, fails on the promotion page: its quote has
  no labour, add-on or supplies charge, and yet a total of 25, the flat deposit.
\<close>

theorem promo_total_counterexample:
  "totalPrice pricingPromo
     \<noteq> round2 (labour pricingPromo + addOnsTotal pricingPromo + suppliesFee pricingPromo)"
  by code_simp

text \<open>
  Claim C1, amended: every quote of the home page, the office page and the older office
  page has an estimate of at least the minimum of 2 hours and a total equal to the sum of
  labour, add-ons and supplies fee rounded to two decimal places.  The quote of the
  promotion page has an estimate of 1 hour, which is its minimum, no charges, and the flat
  deposit of 25 as its total.
\<close>

theorem quote_invariant_variants:
  "quoteInvariant HOME_MIN_HOURS (pricingHome form)
   \<and> quoteInvariant OFFICE_MIN_HOURS (pricingOffice rooms ex level choice date)
   \<and> quoteInvariant OLD_MIN_HOURS (pricingOfficeOld rooms' kc ks tc ac ex' level' choice')
   \<and> HOME_MIN_HOURS = 2 \<and> OFFICE_MIN_HOURS = 2 \<and> OLD_MIN_HOURS = 2 \<and> PROMO_MIN_HOURS = 1
   \<and> estimatedHours pricingPromo = 1
   \<and> estimatedHours pricingPromo \<ge> PROMO_MIN_HOURS
   \<and> labour pricingPromo = 0 \<and> addOnsTotal pricingPromo = 0 \<and> suppliesFee pricingPromo = 0
   \<and> totalPrice pricingPromo = 25"
  by (simp add: pricingHome_def pricingOffice_def pricingOfficeOld_def Let_def
      teamQuote_invariant HOME_MIN_HOURS_def OFFICE_MIN_HOURS_def OLD_MIN_HOURS_def
      PROMO_MIN_HOURS_def pricingPromo_def DEPOSIT_AMOUNT_def)

theorem quote_invariant_variants_witness:
  "estimatedHours (pricingHome exampleHomeForm) \<ge> 2
   \<and> totalPrice (pricingHome exampleHomeForm)
       = round2 (labour (pricingHome exampleHomeForm) + addOnsTotal (pricingHome exampleHomeForm)
                 + suppliesFee (pricingHome exampleHomeForm))"
proof -
  have "quoteInvariant HOME_MIN_HOURS (pricingHome exampleHomeForm)"
    by (rule quote_invariant_variants [of exampleHomeForm, THEN conjunct1])
  then show ?thesis by (simp add: quoteInvariant_def HOME_MIN_HOURS_def)
qed

text \<open>
  Claim C6: in every pricing variant the team rule holds.  When the base estimate exceeds
  the threshold (4 hours on the home, office and promotion pages, 6 hours on the older
  office page), two cleaners are assigned and the estimate is the base divided by the team
  factor (1.6 on the home page, 1.7 elsewhere), rounded up to a half hour and floored at
  the minimum; this estimate is at most the base.  Otherwise one cleaner is assigned and
  the estimate is the base.  The numbers are those of the constants of each page; the
  promotion page keeps a threshold and a factor that its fixed quote never reaches.
\<close>

theorem team_rule_all_variants:
  "teamRule 2 4 (8 / 5) (pricingHome form)
   \<and> teamRule 2 4 (17 / 10) (pricingOffice rooms ex level choice date)
   \<and> teamRule 2 6 (17 / 10) (pricingOfficeOld rooms' kc ks tc ac ex' level' choice')
   \<and> teamRule 1 4 (17 / 10) pricingPromo
   \<and> (HOME_MIN_HOURS, HOME_TEAM_THRESHOLD_HOURS, HOME_TEAM_FACTOR) = (2, 4, 8 / 5)
   \<and> (OFFICE_MIN_HOURS, OFFICE_TEAM_THRESHOLD_HOURS, OFFICE_TEAM_FACTOR) = (2, 4, 17 / 10)
   \<and> (OLD_MIN_HOURS, OLD_TEAM_THRESHOLD_HOURS, OLD_TEAM_FACTOR) = (2, 6, 17 / 10)
   \<and> (PROMO_MIN_HOURS, PROMO_TEAM_THRESHOLD_HOURS, PROMO_TEAM_FACTOR) = (1, 4, 17 / 10)"
proof -
  have k: "(HOME_MIN_HOURS, HOME_TEAM_THRESHOLD_HOURS, HOME_TEAM_FACTOR) = (2, 4, 8 / 5)
      \<and> (OFFICE_MIN_HOURS, OFFICE_TEAM_THRESHOLD_HOURS, OFFICE_TEAM_FACTOR) = (2, 4, 17 / 10)
      \<and> (OLD_MIN_HOURS, OLD_TEAM_THRESHOLD_HOURS, OLD_TEAM_FACTOR) = (2, 6, 17 / 10)
      \<and> (PROMO_MIN_HOURS, PROMO_TEAM_THRESHOLD_HOURS, PROMO_TEAM_FACTOR) = (1, 4, 17 / 10)"
    by (simp add: HOME_MIN_HOURS_def HOME_TEAM_THRESHOLD_HOURS_def HOME_TEAM_FACTOR_def
        OFFICE_MIN_HOURS_def OFFICE_TEAM_THRESHOLD_HOURS_def OFFICE_TEAM_FACTOR_def
        OLD_MIN_HOURS_def OLD_TEAM_THRESHOLD_HOURS_def OLD_TEAM_FACTOR_def
        PROMO_MIN_HOURS_def PROMO_TEAM_THRESHOLD_HOURS_def PROMO_TEAM_FACTOR_def)
  have h: "teamRule 2 4 (8 / 5) (pricingHome form)"
    unfolding pricingHome_def Let_def HOME_MIN_HOURS_def HOME_TEAM_THRESHOLD_HOURS_def
      HOME_TEAM_FACTOR_def
    by (rule teamQuote_teamRule) (simp_all add: roundUpToHalf_two)
  have o: "teamRule 2 4 (17 / 10) (pricingOffice rooms ex level choice date)"
    unfolding pricingOffice_def Let_def OFFICE_MIN_HOURS_def OFFICE_TEAM_THRESHOLD_HOURS_def
      OFFICE_TEAM_FACTOR_def
    by (rule teamQuote_teamRule) (simp_all add: roundUpToHalf_two)
  have od: "teamRule 2 6 (17 / 10) (pricingOfficeOld rooms' kc ks tc ac ex' level' choice')"
    unfolding pricingOfficeOld_def Let_def OLD_MIN_HOURS_def OLD_TEAM_THRESHOLD_HOURS_def
      OLD_TEAM_FACTOR_def
    by (rule teamQuote_teamRule) (simp_all add: roundUpToHalf_two)
  have p: "teamRule 1 4 (17 / 10) pricingPromo"
    by (simp add: teamRule_def pricingPromo_def)
  show ?thesis using h o od p k by simp
qed

theorem team_rule_all_variants_witness:
  "baseEstimatedHours (pricingHome exampleHomeForm) > 4
   \<and> teamApplied (pricingHome exampleHomeForm)
   \<and> estimatedHours (pricingHome exampleHomeForm) \<le> baseEstimatedHours (pricingHome exampleHomeForm)"
proof -
  have r: "teamRule 2 4 (8 / 5) (pricingHome exampleHomeForm)"
    by (rule team_rule_all_variants [of exampleHomeForm, THEN conjunct1])
  show ?thesis using r by (simp add: teamRule_def example_home_base example_home_hours)
qed


section \<open>Phone normaliser: proofs\<close>

lemma startsWith_one: "startsWith s [c] = (s \<noteq> [] \<and> hd s = c)"
  by (cases s) (simp_all add: startsWith_def)

lemma startsWith_two: "startsWith s [a, b] = (2 \<le> length s \<and> s ! 0 = a \<and> s ! 1 = b)"
proof (cases s)
  case Nil
  then show ?thesis by (simp add: startsWith_def)
next
  case (Cons x xs)
  then show ?thesis by (cases xs) (auto simp add: startsWith_def)
qed

lemma isDigit_eta: "isDigit = (\<lambda>c. c \<in> set ''0123456789'')"
  by (rule ext) (simp add: isDigit_def)

text \<open>
  Claim C7: for every non-empty input the phone normaliser returns what the rule of the
  specification gives (\<open>phoneRule\<close>): with \<open>d\<close> the digits of the input, +44 and the
  digits after a leading 0 when \<open>d\<close> starts with 0 and has at least 10 digits; else + and
  \<open>d\<close> when \<open>d\<close> starts with 44; else the trimmed input when that starts with +; else
  + and \<open>d\<close>.  The three examples of the specification come out as stated.
\<close>

theorem toE164UK_rule:
  "(raw \<noteq> [] \<longrightarrow> toE164UK (Some raw) = Some (phoneRule raw))
   \<and> toE164UK (Some ''07123456789'') = Some ''+447123456789''
   \<and> toE164UK (Some ''442071234567'') = Some ''+442071234567''
   \<and> toE164UK (Some ''+1 212 555 0100'') = Some ''+1 212 555 0100''"
proof -
  have general: "raw \<noteq> [] \<longrightarrow> toE164UK (Some raw) = Some (phoneRule raw)"
    by (simp add: toE164UK_def phoneRule_def Let_def startsWith_one startsWith_two isDigit_eta
        drop_Suc)
  have e1: "toE164UK (Some ''07123456789'') = Some ''+447123456789''"
    by (simp add: toE164UK_def isDigit_def startsWith_def)
  have e2: "toE164UK (Some ''442071234567'') = Some ''+442071234567''"
    by (simp add: toE164UK_def isDigit_def startsWith_def)
  have e3: "toE164UK (Some ''+1 212 555 0100'') = Some ''+1 212 555 0100''"
    by (simp add: toE164UK_def isDigit_def startsWith_def trim_def isSpace_def)
  show ?thesis using general e1 e2 e3 by simp
qed

theorem toE164UK_rule_witness:
  "''020 7946 0958'' \<noteq> [] \<and> toE164UK (Some ''020 7946 0958'') = Some ''+442079460958''"
proof -
  have "toE164UK (Some ''020 7946 0958'') = Some (phoneRule ''020 7946 0958'')"
    using toE164UK_rule [of "''020 7946 0958''"] by simp
  moreover have "phoneRule ''020 7946 0958'' = ''+442079460958''"
    by (simp add: phoneRule_def)
  ultimately show ?thesis by simp
qed

section \<open>Availability model: proofs\<close>

lemma getDayAvail_nonobject:
  "(\<forall>kvs. availObj \<noteq> JObj kvs) \<Longrightarrow> getDayAvail availObj wd = None"
  by (cases availObj) (simp_all add: getDayAvail_def)

lemma getDayAvail_entry:
  "getDayAvail (JObj obj) wd =
     (case nullish (getProp obj wd) (getProp obj (titleCaseDay wd)) of
        JObj aRec \<Rightarrow> Some (dayRecordOf aRec)
      | _ \<Rightarrow> None)"
  by (simp add: getDayAvail_def Let_def dayRecordOf_def timeOrDefault_def orElse_def
      split: jsval.splits)

text \<open>
  Claim C8: \<open>getDayAvail\<close> returns null for an availability value that is not an object;
  it reads the lower-case weekday key first and the capitalised key only when the first is
  missing or null; it returns null when the entry found is missing or not an object; and
  for an entry that is an object the start time defaults to 07:00 when neither
  \<open>startTime\<close> nor \<open>from\<close> holds a non-empty value, the end time to 20:00 when neither
  \<open>endTime\<close> nor \<open>to\<close> does, each independently of the other.  An entry with only an
  end time of 18:00 yields 07:00 to 18:00, under either spelling of the key.
\<close>

theorem getDayAvail_contract:
  "((\<forall>kvs. availObj \<noteq> JObj kvs) \<longrightarrow> getDayAvail availObj wd = None)
   \<and> (getProp obj wd = JObj aRec \<longrightarrow> getDayAvail (JObj obj) wd = Some (dayRecordOf aRec))
   \<and> (getProp obj wd \<in> {JUndefined, JNull} \<and> getProp obj (titleCaseDay wd) = JObj aRec
        \<longrightarrow> getDayAvail (JObj obj) wd = Some (dayRecordOf aRec))
   \<and> (getProp obj wd \<in> {JUndefined, JNull} \<and> (\<forall>r. getProp obj (titleCaseDay wd) \<noteq> JObj r)
        \<longrightarrow> getDayAvail (JObj obj) wd = None)
   \<and> (getProp obj wd \<notin> {JUndefined, JNull} \<and> (\<forall>r. getProp obj wd \<noteq> JObj r)
        \<longrightarrow> getDayAvail (JObj obj) wd = None)
   \<and> (\<not> truthy (getProp aRec ''startTime'') \<and> \<not> truthy (getProp aRec ''from'')
        \<longrightarrow> start (dayRecordOf aRec) = JStr ''07:00'')
   \<and> (\<not> truthy (getProp aRec ''endTime'') \<and> \<not> truthy (getProp aRec ''to'')
        \<longrightarrow> end (dayRecordOf aRec) = JStr ''20:00'')
   \<and> (truthy (getProp aRec ''startTime'') \<longrightarrow> start (dayRecordOf aRec) = getProp aRec ''startTime'')
   \<and> (truthy (getProp aRec ''endTime'') \<longrightarrow> end (dayRecordOf aRec) = getProp aRec ''endTime'')
   \<and> titleCaseDay ''monday'' = ''Monday''
   \<and> getDayAvail (JObj [(''monday'', exampleDayEntry)]) ''monday''
       = Some \<lparr> available = True, start = JStr ''07:00'', end = JStr ''18:00'' \<rparr>
   \<and> getDayAvail (JObj [(''Monday'', exampleDayEntry)]) ''monday''
       = Some \<lparr> available = True, start = JStr ''07:00'', end = JStr ''18:00'' \<rparr>"
proof -
  have a: "(\<forall>kvs. availObj \<noteq> JObj kvs) \<longrightarrow> getDayAvail availObj wd = None"
    by (simp add: getDayAvail_nonobject)
  have b: "getProp obj wd = JObj aRec \<longrightarrow> getDayAvail (JObj obj) wd = Some (dayRecordOf aRec)"
    by (simp add: getDayAvail_entry nullish_def)
  have c: "getProp obj wd \<in> {JUndefined, JNull} \<and> getProp obj (titleCaseDay wd) = JObj aRec
        \<longrightarrow> getDayAvail (JObj obj) wd = Some (dayRecordOf aRec)"
    by (auto simp add: getDayAvail_entry nullish_def)
  have d: "getProp obj wd \<in> {JUndefined, JNull} \<and> (\<forall>r. getProp obj (titleCaseDay wd) \<noteq> JObj r)
        \<longrightarrow> getDayAvail (JObj obj) wd = None"
    by (auto simp add: getDayAvail_entry nullish_def split: jsval.splits)
  have e: "getProp obj wd \<notin> {JUndefined, JNull} \<and> (\<forall>r. getProp obj wd \<noteq> JObj r)
        \<longrightarrow> getDayAvail (JObj obj) wd = None"
    by (auto simp add: getDayAvail_entry nullish_def split: jsval.splits)
  have f: "(\<not> truthy (getProp aRec ''startTime'') \<and> \<not> truthy (getProp aRec ''from'')
        \<longrightarrow> start (dayRecordOf aRec) = JStr ''07:00'')
   \<and> (\<not> truthy (getProp aRec ''endTime'') \<and> \<not> truthy (getProp aRec ''to'')
        \<longrightarrow> end (dayRecordOf aRec) = JStr ''20:00'')
   \<and> (truthy (getProp aRec ''startTime'') \<longrightarrow> start (dayRecordOf aRec) = getProp aRec ''startTime'')
   \<and> (truthy (getProp aRec ''endTime'') \<longrightarrow> end (dayRecordOf aRec) = getProp aRec ''endTime'')"
    by (simp add: dayRecordOf_def timeOrDefault_def)
  have g: "titleCaseDay ''monday'' = ''Monday''"
    by (simp add: titleCaseDay_def toUpperChar_def)
  have h: "getDayAvail (JObj [(''monday'', exampleDayEntry)]) ''monday''
       = Some \<lparr> available = True, start = JStr ''07:00'', end = JStr ''18:00'' \<rparr>"
    by (simp add: getDayAvail_entry nullish_def getProp_def exampleDayEntry_def dayRecordOf_def
        timeOrDefault_def)
  have i: "getDayAvail (JObj [(''Monday'', exampleDayEntry)]) ''monday''
       = Some \<lparr> available = True, start = JStr ''07:00'', end = JStr ''18:00'' \<rparr>"
    by (simp add: getDayAvail_entry nullish_def getProp_def exampleDayEntry_def dayRecordOf_def
        timeOrDefault_def g)
  show ?thesis using a b c d e f g h i by blast
qed

theorem getDayAvail_contract_witness:
  "getProp [(''Monday'', exampleDayEntry)] ''monday'' \<in> {JUndefined, JNull}
   \<and> getProp [(''Monday'', exampleDayEntry)] (titleCaseDay ''monday'')
       = JObj [(''available'', JBool True), (''endTime'', JStr ''18:00'')]
   \<and> getDayAvail (JObj [(''Monday'', exampleDayEntry)]) ''monday''
       = Some (dayRecordOf [(''available'', JBool True), (''endTime'', JStr ''18:00'')])"
proof -
  have t: "titleCaseDay ''monday'' = ''Monday''"
    by (simp add: titleCaseDay_def toUpperChar_def)
  have p1: "getProp [(''Monday'', exampleDayEntry)] ''monday'' \<in> {JUndefined, JNull}"
    by (simp add: getProp_def)
  have p2: "getProp [(''Monday'', exampleDayEntry)] (titleCaseDay ''monday'')
       = JObj [(''available'', JBool True), (''endTime'', JStr ''18:00'')]"
    by (simp add: getProp_def t exampleDayEntry_def)
  show ?thesis
    using p1 p2
      getDayAvail_contract [of JNull "''monday''" "[(''Monday'', exampleDayEntry)]"
        "[(''available'', JBool True), (''endTime'', JStr ''18:00'')]"]
    by blast
qed


section \<open>Booking helpers: proofs\<close>

lemma digitChar_isDigit: "n < 10 \<Longrightarrow> isDigit (digitChar n)"
proof -
  assume "n < 10"
  then have "n \<in> {0,1,2,3,4,5,6,7,8,9}" by auto
  then show ?thesis by (auto simp add: isDigit_def digitChar_def)
qed

lemma digitVal_digitChar: "n < 10 \<Longrightarrow> digitVal (digitChar n) = n"
proof -
  assume "n < 10"
  then have "n \<in> {0,1,2,3,4,5,6,7,8,9}" by auto
  then show ?thesis by (auto simp add: digitVal_def digitChar_def)
qed

lemma isDigit_chars:
  "isDigit c \<Longrightarrow> \<not> isSpace c \<and> c \<noteq> CHR ''-'' \<and> c \<noteq> CHR ''+'' \<and> c \<noteq> CHR '':''"
  by (auto simp add: isDigit_def isSpace_def)

lemma string_of_nat_digits: "\<forall>c \<in> set (string_of_nat n). isDigit c"
proof (induction n rule: string_of_nat.induct)
  case (1 n)
  show ?case
  proof (cases "n < 10")
    case True
    then have "string_of_nat n = [digitChar n]"
      by (subst string_of_nat.simps) simp
    then show ?thesis using True by (simp add: digitChar_isDigit)
  next
    case False
    then have "string_of_nat n = string_of_nat (n div 10) @ [digitChar (n mod 10)]"
      by (subst string_of_nat.simps) simp
    then show ?thesis using 1 False by (simp add: digitChar_isDigit)
  qed
qed

lemma string_of_nat_nonempty: "string_of_nat n \<noteq> []"
  by (subst string_of_nat.simps) simp

lemma digitsValue_snoc: "digitsValue (ds @ [c]) = 10 * digitsValue ds + digitVal c"
  by (simp add: digitsValue_def)

lemma digitsValue_string_of_nat: "digitsValue (string_of_nat n) = n"
proof (induction n rule: string_of_nat.induct)
  case (1 n)
  show ?case
  proof (cases "n < 10")
    case True
    then have "string_of_nat n = [digitChar n]"
      by (subst string_of_nat.simps) simp
    then show ?thesis using True by (simp add: digitsValue_def digitVal_digitChar)
  next
    case False
    then have "string_of_nat n = string_of_nat (n div 10) @ [digitChar (n mod 10)]"
      by (subst string_of_nat.simps) simp
    then show ?thesis using 1 False by (simp add: digitsValue_snoc digitVal_digitChar)
  qed
qed

lemma digitsValue_zeros: "digitsValue (replicate k (CHR ''0'') @ ds) = digitsValue ds"
proof -
  have "foldl (\<lambda>a c. 10 * a + digitVal c) 0 (replicate k (CHR ''0'')) = 0"
    by (induction k) (simp_all add: digitVal_def)
  then show ?thesis by (simp add: digitsValue_def)
qed

lemma parseInt_digits:
  assumes "ds \<noteq> []" and "\<forall>c \<in> set ds. isDigit c"
  shows "parseInt ds = Some (int (digitsValue ds))"
proof -
  obtain c cs where ds: "ds = c # cs" using assms(1) by (cases ds) auto
  have c: "isDigit c" using assms(2) ds by simp
  have d: "dropWhile isSpace ds = ds" using c ds isDigit_chars by simp
  have t: "takeWhile isDigit ds = ds" using assms(2) by (simp add: takeWhile_eq_all_conv)
  have s: "hd ds \<noteq> CHR ''-''" "hd ds \<noteq> CHR ''+''" using c ds isDigit_chars by simp_all
  show ?thesis using assms(1) by (simp add: parseInt_def Let_def d t s)
qed

lemma split_digits:
  assumes "\<forall>c \<in> set hs. isDigit c" and "\<forall>c \<in> set ms. isDigit c"
  shows "split (CHR '':'') (hs @ CHR '':'' # ms) = [hs, ms]"
proof -
  have tail: "split (CHR '':'') ms = [ms]" using assms(2)
  proof (induction ms)
    case Nil
    then show ?case by simp
  next
    case (Cons a ms)
    then show ?case using isDigit_chars by auto
  qed
  show ?thesis using assms(1)
  proof (induction hs)
    case Nil
    then show ?case by (simp add: tail)
  next
    case (Cons a hs)
    then show ?case using isDigit_chars by auto
  qed
qed

lemma padStart2_digits:
  assumes "\<forall>c \<in> set s. isDigit c"
  shows "\<forall>c \<in> set (padStart2 s). isDigit c"
proof -
  have "isDigit (CHR ''0'')" by (simp add: isDigit_def)
  then show ?thesis using assms by (auto simp add: padStart2_def)
qed

lemma padStart2_nonempty: "s \<noteq> [] \<Longrightarrow> padStart2 s \<noteq> []"
  by (simp add: padStart2_def)

lemma digitsValue_padStart2: "digitsValue (padStart2 s) = digitsValue s"
  by (simp add: padStart2_def digitsValue_zeros)

lemma mathRound_nonneg: "0 \<le> x \<Longrightarrow> 0 \<le> mathRound x"
  by (simp add: mathRound_def)

lemma addHoursToTime_digits:
  assumes hs: "hs \<noteq> []" "\<forall>c \<in> set hs. isDigit c"
      and ms: "ms \<noteq> []" "\<forall>c \<in> set ms. isDigit c"
      and h: "0 \<le> h"
  shows "addHoursToTime (hs @ CHR '':'' # ms) h =
           (let total = int (digitsValue hs) * 60 + int (digitsValue ms) + mathRound (h * 60)
            in padStart2 (string_of_int (total div 60)) @ '':''
                 @ padStart2 (string_of_int (total mod 60)))"
proof -
  have nn: "0 \<le> int (digitsValue hs) * 60 + int (digitsValue ms) + mathRound (h * 60)"
    using h by (simp add: mathRound_nonneg)
  have rem: "\<And>t::int. 0 \<le> t \<Longrightarrow> jsRem t 60 = t mod 60"
    by (simp add: jsRem_def sgn_if)
  show ?thesis
    using hs ms nn
    by (simp add: addHoursToTime_def split_digits parseInt_digits Let_def rem)
qed

text \<open>
  Claim C10: for a start time of two-digit hour \<open>H\<close> and minute \<open>M\<close>, or of the form
  \<open>H:00\<close> that \<open>onSubmit\<close> builds from a slot label, and for non-negative hours \<open>h\<close>,
  \<open>addHoursToTime\<close> prints the total of \<open>60 H + M + round (60 h)\<close> minutes with the hour
  taken by integer division and not reduced modulo 24.  So 20:00 plus 5 hours is 25:00 and
  19:00 plus 5 hours is 24:00.  Such a submission can occur: eight bedrooms on the home
  page give an estimate of 5 hours, a staff member working until 21:00 makes slot 20
  bookable, and the booking stored for that slot has the end time 25:00.
\<close>

theorem addHoursToTime_no_wrap:
  "(0 \<le> h \<longrightarrow>
      addHoursToTime (padStart2 (string_of_nat H) @ '':'' @ padStart2 (string_of_nat M)) h =
        (let total = int H * 60 + int M + mathRound (h * 60)
         in padStart2 (string_of_int (total div 60)) @ '':''
              @ padStart2 (string_of_int (total mod 60))))
   \<and> (0 \<le> h \<longrightarrow>
      addHoursToTime (string_of_nat H @ '':00'') h =
        (let total = int H * 60 + mathRound (h * 60)
         in padStart2 (string_of_int (total div 60)) @ '':''
              @ padStart2 (string_of_int (total mod 60))))
   \<and> addHoursToTime ''20:00'' 5 = ''25:00''
   \<and> addHoursToTime ''19:00'' 5 = ''24:00''
   \<and> estimatedHours (pricingHome exampleHomeFormFull) = 5
   \<and> ''20'' \<in> set (loadTimes 0 (Some (7 * msPerDay)) {} (Inr None) (Inr []) (Inr [lateStaff]))
   \<and> storedEndTimes (onSubmitHome False allOk ''LUX12345'' exampleHomeFormFull (Some (7 * msPerDay)) ''20'')
       = [''25:00'']"
proof -
  have hd1: "padStart2 (string_of_nat H) \<noteq> []"
    by (simp add: padStart2_nonempty string_of_nat_nonempty)
  have hd2: "\<forall>c \<in> set (padStart2 (string_of_nat H)). isDigit c"
    by (rule padStart2_digits [OF string_of_nat_digits])
  have md1: "padStart2 (string_of_nat M) \<noteq> []"
    by (simp add: padStart2_nonempty string_of_nat_nonempty)
  have md2: "\<forall>c \<in> set (padStart2 (string_of_nat M)). isDigit c"
    by (rule padStart2_digits [OF string_of_nat_digits])
  have a: "0 \<le> h \<longrightarrow>
      addHoursToTime (padStart2 (string_of_nat H) @ '':'' @ padStart2 (string_of_nat M)) h =
        (let total = int H * 60 + int M + mathRound (h * 60)
         in padStart2 (string_of_int (total div 60)) @ '':''
              @ padStart2 (string_of_int (total mod 60)))"
    using addHoursToTime_digits [OF hd1 hd2 md1 md2]
    by (simp add: digitsValue_padStart2 digitsValue_string_of_nat)
  have zz: "''00'' \<noteq> []" "\<forall>c \<in> set ''00''. isDigit c" "digitsValue ''00'' = 0"
    by (simp_all add: isDigit_def digitsValue_def digitVal_def)
  have b: "0 \<le> h \<longrightarrow>
      addHoursToTime (string_of_nat H @ '':00'') h =
        (let total = int H * 60 + mathRound (h * 60)
         in padStart2 (string_of_int (total div 60)) @ '':''
              @ padStart2 (string_of_int (total mod 60)))"
    using addHoursToTime_digits [OF string_of_nat_nonempty string_of_nat_digits zz(1) zz(2)]
    by (simp add: digitsValue_string_of_nat zz(3))
  have c: "addHoursToTime ''20:00'' 5 = ''25:00''" by code_simp
  have d: "addHoursToTime ''19:00'' 5 = ''24:00''" by code_simp
  have e: "estimatedHours (pricingHome exampleHomeFormFull) = 5" by code_simp
  have f: "''20'' \<in> set (loadTimes 0 (Some (7 * msPerDay)) {} (Inr None) (Inr []) (Inr [lateStaff]))"
    by code_simp
  have g: "storedEndTimes (onSubmitHome False allOk ''LUX12345'' exampleHomeFormFull
             (Some (7 * msPerDay)) ''20'') = [''25:00'']"
    by code_simp
  show ?thesis using a b c d e f g by simp
qed

theorem addHoursToTime_no_wrap_witness:
  "(0::rat) \<le> 5 / 2 \<and> addHoursToTime ''07:00'' (5 / 2) = ''09:30''"
proof -
  have p: "padStart2 (string_of_nat 7) = ''07''" "padStart2 (string_of_nat 0) = ''00''"
    by code_simp+
  have r: "(let total = int 7 * 60 + int 0 + mathRound ((5 / 2) * 60)
            in padStart2 (string_of_int (total div 60)) @ '':''
                 @ padStart2 (string_of_int (total mod 60))) = ''09:30''"
    by code_simp
  have "addHoursToTime (padStart2 (string_of_nat 7) @ '':'' @ padStart2 (string_of_nat 0)) (5 / 2)
          = ''09:30''"
    using addHoursToTime_no_wrap [of "5 / 2" 7 0] r by simp
  then show ?thesis using p by simp
qed


section \<open>Blocked-date scanner: proofs\<close>

lemma foldl_min_Min: "foldl min (a::rat) xs = Min (insert a (set xs))"
proof (induction xs arbitrary: a)
  case Nil
  then show ?case by simp
next
  case (Cons x xs)
  have "Min (insert (min a x) (set xs)) = Min (insert a (insert x (set xs)))"
  proof (cases "set xs = {}")
    case True
    then show ?thesis by (simp add: min.commute)
  next
    case False
    then show ?thesis by (simp add: min.assoc)
  qed
  then show ?case using Cons by simp
qed

lemma globalMinNoticeOf_Min:
  "globalMinNoticeOf staff = (if staff = [] then 12 else Min (set (map noticeOr12 staff)))"
  by (cases staff) (simp_all add: globalMinNoticeOf_def foldl_min_Min)

lemma dayOf_midnight: "dayOf (d * msPerDay) = d"
  by (simp add: dayOf_def msPerDay_def)

lemma blockedLoop_member:
  "d \<in> blockedLoop now staff g is B \<longleftrightarrow>
     d \<in> B \<or> (\<exists>i \<in> set is. d = dayOf now + i
                 \<and> (i < 0
                     \<or> \<not> list_ex (availableOn (weekdayName (d * msPerDay))) staff
                     \<or> d * msPerDay + 20 * msPerHour < cutoffDate now g))"
proof (induction "is" arbitrary: B)
  case Nil
  then show ?case by simp
next
  case (Cons i rest)
  have lt: "(dayOf now + i) * msPerDay < dayOf now * msPerDay \<longleftrightarrow> i < 0"
    by (simp add: msPerDay_def)
  show ?case
    by (simp add: Cons.IH Let_def dayOf_midnight lt) blast
qed

lemma blockedLoop_range:
  "d \<in> blockedLoop now staff g [lo .. hi] {} \<longleftrightarrow>
     dayOf now + lo \<le> d \<and> d \<le> dayOf now + hi
     \<and> (d < dayOf now
        \<or> \<not> list_ex (availableOn (weekdayName (d * msPerDay))) staff
        \<or> d * msPerDay + 20 * msPerHour < cutoffDate now g)"
  (is "?L \<longleftrightarrow> ?R")
proof
  assume ?L
  then obtain i where i: "i \<in> set [lo .. hi]" "d = dayOf now + i"
      "i < 0 \<or> \<not> list_ex (availableOn (weekdayName (d * msPerDay))) staff
         \<or> d * msPerDay + 20 * msPerHour < cutoffDate now g"
    by (auto simp add: blockedLoop_member)
  then show ?R by auto
next
  assume r: ?R
  define i where "i = d - dayOf now"
  have "i \<in> set [lo .. hi]" using r by (simp add: i_def)
  moreover have "d = dayOf now + i" by (simp add: i_def)
  moreover have "i < 0 \<or> \<not> list_ex (availableOn (weekdayName (d * msPerDay))) staff
         \<or> d * msPerDay + 20 * msPerHour < cutoffDate now g"
    using r by (auto simp add: i_def)
  ultimately show ?L unfolding blockedLoop_member by blast
qed

text \<open>
  Claim C4: a day of the window from 30 days before today to 60 days after (exclusive) is
  in the set that \<open>computeBlockedDays\<close> produces if and only if it is before today, or no
  active staff member is available on its weekday, or the clock plus the global minimum
  notice (the least \<open>minNoticeHours\<close> of the active staff, an absent field counting as
  12, and 12 for an empty roster) is after 20:00 of that day.  No day outside the window is
  marked, and every day of the window before today is.  Times are compared as
  \<^verbatim>\<open>Date\<close> values, that is in whole milliseconds.
\<close>

theorem computeBlockedDays_iff:
  "(dayOf now - 30 \<le> d \<and> d < dayOf now + 60
      \<longrightarrow> (d \<in> computeBlockedDays now (Inr docs) \<longleftrightarrow> blockedBySpec now docs d))
   \<and> (d \<in> computeBlockedDays now (Inr docs) \<longrightarrow> dayOf now - 30 \<le> d \<and> d < dayOf now + 60)
   \<and> (dayOf now - 30 \<le> d \<and> d < dayOf now \<longrightarrow> d \<in> computeBlockedDays now (Inr docs))"
proof -
  have mem: "d \<in> computeBlockedDays now (Inr docs) \<longleftrightarrow>
               dayOf now - 30 \<le> d \<and> d < dayOf now + 60 \<and> blockedBySpec now docs d"
    unfolding computeBlockedDays_def blockedBySpec_def Let_def sum.case blockedLoop_range
      globalMinNoticeOf_Min list_ex_iff
    by auto
  show ?thesis using mem by (auto simp add: blockedBySpec_def Let_def)
qed

theorem computeBlockedDays_iff_witness:
  "dayOf 561600000 - 30 \<le> 7 \<and> 7 < dayOf 561600000 + 60
   \<and> blockedBySpec 561600000 [thursdayStaff] 7
   \<and> 7 \<in> computeBlockedDays 561600000 (Inr [thursdayStaff])"
proof -
  have w: "dayOf 561600000 - 30 \<le> 7 \<and> 7 < dayOf 561600000 + 60"
    by (simp add: dayOf_def msPerDay_def)
  have b: "blockedBySpec 561600000 [thursdayStaff] 7"
    by code_simp
  show ?thesis
    using w b computeBlockedDays_iff [of 561600000 7 "[thursdayStaff]"] by blast
qed


section \<open>Failure handling of the two availability components: proofs\<close>

text \<open>
  Claim C9: when the staff query fails, \<open>computeBlockedDays\<close> yields the empty set
  (nothing is blocked).  When the read of the unavailability document, of the bookings or of
  the staff fails, or anything else throws inside \<open>loadTimes\<close> (a booking whose start time
  is not a string, for one), \<open>loadTimes\<close> yields the empty list (no slot is offered).  Both
  results are plain values: no error leaves either function.
\<close>

theorem fetch_failures_recovered:
  "computeBlockedDays now (Inl e) = {}
   \<and> loadTimes now selectedDate blockedDates (Inl e) bookingsSnap staffSnap = []
   \<and> loadTimes now selectedDate blockedDates unavailSnap (Inl e) staffSnap = []
   \<and> loadTimes now selectedDate blockedDates unavailSnap bookingsSnap (Inl e) = []
   \<and> (loadTimesTry now selectedDate blockedDates unavailSnap bookingsSnap staffSnap = Inl e
        \<longrightarrow> loadTimes now selectedDate blockedDates unavailSnap bookingsSnap staffSnap = [])
   \<and> loadTimesTry 0 (Some (7 * msPerDay)) {} (Inr None) (Inr [brokenBooking]) (Inr [thursdayStaff])
       = Inl TypeError
   \<and> loadTimes 0 (Some (7 * msPerDay)) {} (Inr None) (Inr [brokenBooking]) (Inr [thursdayStaff]) = []"
proof -
  have a: "computeBlockedDays now (Inl e) = {}"
    by (simp add: computeBlockedDays_def)
  have b: "loadTimes now selectedDate blockedDates (Inl e) bookingsSnap staffSnap = []"
    by (simp add: loadTimes_def loadTimesTry_def split: option.splits)
  have c: "loadTimes now selectedDate blockedDates unavailSnap (Inl e) staffSnap = []"
    by (simp add: loadTimes_def loadTimesTry_def split: option.splits sum.splits)
  have d: "loadTimes now selectedDate blockedDates unavailSnap bookingsSnap (Inl e) = []"
    by (simp add: loadTimes_def loadTimesTry_def split: option.splits sum.splits)
  have f: "loadTimesTry now selectedDate blockedDates unavailSnap bookingsSnap staffSnap = Inl e
        \<longrightarrow> loadTimes now selectedDate blockedDates unavailSnap bookingsSnap staffSnap = []"
    by (simp add: loadTimes_def)
  have g: "loadTimesTry 0 (Some (7 * msPerDay)) {} (Inr None) (Inr [brokenBooking]) (Inr [thursdayStaff])
       = Inl TypeError"
    by code_simp
  have h: "loadTimes 0 (Some (7 * msPerDay)) {} (Inr None) (Inr [brokenBooking]) (Inr [thursdayStaff]) = []"
    by code_simp
  show ?thesis using a b c d f g h by simp
qed

theorem fetch_failures_recovered_witness:
  "loadTimesTry 0 (Some (7 * msPerDay)) {} (Inr None) (Inr [brokenBooking]) (Inr [thursdayStaff])
       = Inl TypeError
   \<and> loadTimes 0 (Some (7 * msPerDay)) {} (Inr None) (Inr [brokenBooking]) (Inr [thursdayStaff]) = []"
proof -
  have t: "loadTimesTry 0 (Some (7 * msPerDay)) {} (Inr None) (Inr [brokenBooking]) (Inr [thursdayStaff])
       = Inl TypeError"
    by code_simp
  show ?thesis
    using t fetch_failures_recovered [of 0 TypeError "Some (7 * msPerDay)" "{}" "Inr [brokenBooking]"
        "Inr [thursdayStaff]" "Inr None"]
    by blast
qed


section \<open>Booking conflict filter: proofs\<close>

lemma slotLoop_Inr:
  "slotLoop d c b w st ks = Inr res \<Longrightarrow>
     res = map (\<lambda>k. hd (split (CHR '':'') k)) (filter (slotKept d c b w st) ks)"
proof (induction ks arbitrary: res)
  case Nil
  then show ?case by simp
next
  case (Cons k ks)
  show ?case
  proof (cases "case parseInt (hd (split (CHR '':'') k)) of None \<Rightarrow> False
                | Some h \<Rightarrow> dayOf d * msPerDay + h * msPerHour < c")
    case True
    then have nk: "\<not> slotKept d c b w st k"
      by (auto simp add: slotKept_def split: option.splits)
    from True Cons.prems have "slotLoop d c b w st ks = Inr res" by (simp add: Let_def)
    then show ?thesis using Cons.IH nk by simp
  next
    case False
    then have pass: "(case parseInt (hd (split (CHR '':'') k)) of None \<Rightarrow> True
                | Some h \<Rightarrow> c \<le> dayOf d * msPerDay + h * msPerHour)"
      by (auto split: option.splits)
    from False Cons.prems obtain a rest where
      a: "staffLoop (timeToMinutes k) b w st = Inr a" and
      rest: "slotLoop d c b w st ks = Inr rest" and
      res: "res = (if a then hd (split (CHR '':'') k) # rest else rest)"
      by (auto simp add: Let_def split: sum.splits)
    have "slotKept d c b w st k = a" using a pass by (simp add: slotKept_def)
    then show ?thesis using Cons.IH [OF rest] res by simp
  qed
qed

lemma slotLoop_total:
  "(\<forall>k \<in> set ks. \<exists>r. staffLoop (timeToMinutes k) b w st = Inr r) \<Longrightarrow>
     \<exists>res. slotLoop d c b w st ks = Inr res"
proof (induction ks)
  case Nil
  then show ?case by simp
next
  case (Cons k ks)
  then obtain r rest where "staffLoop (timeToMinutes k) b w st = Inr r"
    "slotLoop d c b w st ks = Inr rest" by auto
  then show ?case by (simp add: Let_def)
qed


lemma label_of_key:
  assumes "\<forall>c \<in> set h. isDigit c"
  shows "hd (split (CHR '':'') (h @ '':00'')) = h"
proof -
  have "\<forall>c \<in> set ''00''. isDigit c" by (simp add: isDigit_def)
  then have "split (CHR '':'') (h @ CHR '':'' # ''00'') = [h, ''00'']"
    using assms by (rule split_digits [rotated])
  then show ?thesis by simp
qed

lemma ALL_TIMES_digits: "\<forall>h \<in> set ALL_TIMES. \<forall>c \<in> set h. isDigit c"
  by (simp add: ALL_TIMES_def isDigit_def)

lemma candidate_labels:
  "map (\<lambda>k. hd (split (CHR '':'') k)) (filter P (map (\<lambda>h. h @ '':00'') ALL_TIMES))
     = filter (\<lambda>h. P (h @ '':00'')) ALL_TIMES"
proof -
  have "map (\<lambda>k. hd (split (CHR '':'') k)) (filter P (map (\<lambda>h. h @ '':00'') ALL_TIMES))
        = map (\<lambda>h. hd (split (CHR '':'') (h @ '':00''))) (filter (\<lambda>h. P (h @ '':00'')) ALL_TIMES)"
    by (simp add: filter_map comp_def)
  also have "\<dots> = map (\<lambda>h. h) (filter (\<lambda>h. P (h @ '':00'')) ALL_TIMES)"
  proof (rule map_cong)
    fix x assume "x \<in> set (filter (\<lambda>h. P (h @ '':00'')) ALL_TIMES)"
    then have "\<forall>c \<in> set x. isDigit c" using ALL_TIMES_digits by auto
    then show "hd (split (CHR '':'') (x @ '':00'')) = x" by (rule label_of_key)
  qed simp
  finally show ?thesis by simp
qed

text \<open>Either no slot is offered, or the offered slots are the labels of the grid that are
  not removed by the override and that the slot loop keeps.\<close>

lemma loadTimes_cases:
  "loadTimes now sd bl u b s = []
   \<or> (\<exists>date snap bookings docs.
         sd = Some date \<and> dayOf date \<notin> bl \<and> u = Inr snap \<and> b = Inr bookings \<and> s = Inr docs
         \<and> filter (availableOn (weekdayName date)) (filter isActive docs) \<noteq> []
         \<and> loadTimes now sd bl u b s =
             filter (\<lambda>h. h @ '':00'' \<notin> set (bookedLegacyOf snap)
                          \<and> slotKept date
                               (cutoffDate now (globalMinNoticeOf
                                  (filter (availableOn (weekdayName date)) (filter isActive docs))))
                               bookings (weekdayName date)
                               (filter (availableOn (weekdayName date)) (filter isActive docs))
                               (h @ '':00''))
               ALL_TIMES)"
proof (cases "loadTimesTry now sd bl u b s")
  case (Inl e)
  then show ?thesis by (simp add: loadTimes_def)
next
  case (Inr res)
  then have lt: "loadTimes now sd bl u b s = res" by (simp add: loadTimes_def)
  show ?thesis
  proof (cases "res = []")
    case True
    then show ?thesis using lt by simp
  next
    case False
    from Inr False obtain date snap bookings docs s0 ss where
      sd: "sd = Some date" and nb: "dayOf date \<notin> bl" and u: "u = Inr snap"
      and b: "b = Inr bookings" and s: "s = Inr docs"
      and ds: "filter (availableOn (weekdayName date)) (filter isActive docs) = s0 # ss"
      and run: "slotLoop date (cutoffDate now (foldl min (noticeOr12 s0) (map noticeOr12 ss)))
                  bookings (weekdayName date) (s0 # ss)
                  (filter (\<lambda>k. k \<notin> set (bookedLegacyOf snap)) (map (\<lambda>h. h @ '':00'') ALL_TIMES))
                = Inr res"
      by (auto simp add: loadTimesTry_def Let_def split: option.splits sum.splits list.splits if_splits)
    have g: "globalMinNoticeOf (s0 # ss) = foldl min (noticeOr12 s0) (map noticeOr12 ss)"
      by (simp add: globalMinNoticeOf_def)
    have "res = filter (\<lambda>h. h @ '':00'' \<notin> set (bookedLegacyOf snap)
                          \<and> slotKept date (cutoffDate now (globalMinNoticeOf (s0 # ss)))
                               bookings (weekdayName date) (s0 # ss) (h @ '':00''))
               ALL_TIMES"
      using slotLoop_Inr [OF run] by (simp add: candidate_labels g)
    then show ?thesis using sd nb u b s ds lt by auto
  qed
qed


lemma ALL_TIMES_hours: "map hourOf ALL_TIMES = [7 ..< 21]"
  by code_simp

lemma ALL_TIMES_labels: "ALL_TIMES = map string_of_nat [7 ..< 21]"
  by code_simp

lemma filter_grid_sorted: "sorted_wrt (<) (map hourOf (filter Q ALL_TIMES))"
proof -
  have "sorted_wrt (<) (map hourOf ALL_TIMES)"
    unfolding ALL_TIMES_hours by simp
  then have "sorted_wrt (\<lambda>x y. hourOf x < hourOf y) ALL_TIMES"
    by (simp add: sorted_wrt_map)
  then have "sorted_wrt (\<lambda>x y. hourOf x < hourOf y) (filter Q ALL_TIMES)"
    by (rule sorted_wrt_filter)
  then show ?thesis by (simp add: sorted_wrt_map)
qed

text \<open>
  Claim C3: for every input, the list that \<open>loadTimes\<close> produces holds only labels of the
  grid 7 to 20, holds no label whose key \<open>h:00\<close> the override removes, is in strictly
  ascending order of the hour, and is empty when the date is in the blocked set or when no
  active staff member is available on the weekday of the date.
\<close>

theorem loadTimes_grid:
  "set (loadTimes now sd bl u b s) \<subseteq> set ALL_TIMES
   \<and> ALL_TIMES = map string_of_nat [7 ..< 21]
   \<and> (\<forall>h \<in> set (loadTimes now sd bl u b s).
         \<forall>snap. u = Inr snap \<longrightarrow> h @ '':00'' \<notin> set (bookedLegacyOf snap))
   \<and> sorted_wrt (<) (map hourOf (loadTimes now sd bl u b s))
   \<and> (sd = Some date \<and> dayOf date \<in> bl \<longrightarrow> loadTimes now sd bl u b s = [])
   \<and> (sd = Some date \<and> s = Inr docs
        \<and> \<not> (\<exists>x \<in> set docs. isActive x \<and> availableOn (weekdayName date) x)
        \<longrightarrow> loadTimes now sd bl u b s = [])"
proof -
  have blocked: "sd = Some date \<and> dayOf date \<in> bl \<longrightarrow> loadTimes now sd bl u b s = []"
    by (simp add: loadTimes_def loadTimesTry_def)
  have nostaff: "sd = Some date \<and> s = Inr docs
        \<and> \<not> (\<exists>x \<in> set docs. isActive x \<and> availableOn (weekdayName date) x)
        \<longrightarrow> loadTimes now sd bl u b s = []"
  proof
    assume a: "sd = Some date \<and> s = Inr docs
        \<and> \<not> (\<exists>x \<in> set docs. isActive x \<and> availableOn (weekdayName date) x)"
    then have "filter (availableOn (weekdayName date)) (filter isActive docs) = []"
      by (auto simp add: filter_empty_conv)
    then show "loadTimes now sd bl u b s = []"
      using a by (simp add: loadTimes_def loadTimesTry_def split: sum.splits)
  qed
  have rest: "set (loadTimes now sd bl u b s) \<subseteq> set ALL_TIMES
     \<and> (\<forall>h \<in> set (loadTimes now sd bl u b s).
         \<forall>snap. u = Inr snap \<longrightarrow> h @ '':00'' \<notin> set (bookedLegacyOf snap))
     \<and> sorted_wrt (<) (map hourOf (loadTimes now sd bl u b s))"
    using loadTimes_cases [of now sd bl u b s]
  proof
    assume "loadTimes now sd bl u b s = []"
    then show ?thesis by simp
  next
    assume "\<exists>date snap bookings docs.
         sd = Some date \<and> dayOf date \<notin> bl \<and> u = Inr snap \<and> b = Inr bookings \<and> s = Inr docs
         \<and> filter (availableOn (weekdayName date)) (filter isActive docs) \<noteq> []
         \<and> loadTimes now sd bl u b s =
             filter (\<lambda>h. h @ '':00'' \<notin> set (bookedLegacyOf snap)
                          \<and> slotKept date
                               (cutoffDate now (globalMinNoticeOf
                                  (filter (availableOn (weekdayName date)) (filter isActive docs))))
                               bookings (weekdayName date)
                               (filter (availableOn (weekdayName date)) (filter isActive docs))
                               (h @ '':00''))
               ALL_TIMES"
    then obtain d0 snap bookings ds where u: "u = Inr snap"
      and eq: "loadTimes now sd bl u b s =
             filter (\<lambda>h. h @ '':00'' \<notin> set (bookedLegacyOf snap)
                          \<and> slotKept d0
                               (cutoffDate now (globalMinNoticeOf
                                  (filter (availableOn (weekdayName d0)) (filter isActive ds))))
                               bookings (weekdayName d0)
                               (filter (availableOn (weekdayName d0)) (filter isActive ds))
                               (h @ '':00''))
               ALL_TIMES"
      by blast
    show ?thesis unfolding eq using u by (auto simp add: filter_grid_sorted)
  qed
  show ?thesis using blocked nostaff rest ALL_TIMES_labels by blast
qed

theorem loadTimes_grid_witness:
  "dayOf (7 * msPerDay) \<in> {7}
   \<and> loadTimes 0 (Some (7 * msPerDay)) {7} (Inr None) (Inr [noonBooking]) (Inr [thursdayStaff]) = []"
proof -
  have d: "dayOf (7 * msPerDay) \<in> {7}" by (simp add: dayOf_midnight)
  show ?thesis
    using d loadTimes_grid [of 0 "Some (7 * msPerDay)" "{7}" "Inr None" "Inr [noonBooking]"
        "Inr [thursdayStaff]" "7 * msPerDay"]
    by blast
qed


lemma example_times:
  "timeToMinutesV (JStr ''09:00'') = Inr (Some 540)"
  "timeToMinutesV (JStr ''17:00'') = Inr (Some 1020)"
  "timeToMinutesV (JStr ''12:00'') = Inr (Some 720)"
  "timeToMinutesV (JStr ''13:00'') = Inr (Some 780)"
  by code_simp+

lemma collides_noon:
  "collides tm 30 [noonBooking] = Inr (withinJs tm (Some 690) (Some 810))"
  by (simp add: noonBooking_def example_times jsAdd_def)

lemma getDayAvail_nineToFive:
  "getDayAvail (availability (nineToFive wd n)) wd
     = Some \<lparr> available = True, start = JStr ''09:00'', end = JStr ''17:00'' \<rparr>"
  by (simp add: nineToFive_def getDayAvail_entry nullish_def getProp_def dayRecordOf_def
      timeOrDefault_def)

lemma staffLoop_nineToFive:
  "staffLoop tm [noonBooking] wd [nineToFive wd n]
     = Inr (withinJs tm (Some 540) (Some 1020) \<and> \<not> withinJs tm (Some 690) (Some 810))"
proof -
  have b: "bufferOr30 (nineToFive wd n) = 30" by (simp add: bufferOr30_def nineToFive_def)
  show ?thesis
    by (simp add: getDayAvail_nineToFive example_times collides_noon b del: collides.simps)
qed

lemma loadTimes_nineToFive:
  assumes "dayOf date \<notin> bl"
  shows "loadTimes now (Some date) bl (Inr snap) (Inr [noonBooking])
           (Inr [nineToFive (weekdayName date) n])
         = filter (\<lambda>h. h @ '':00'' \<notin> set (bookedLegacyOf snap)
                       \<and> slotKept date (cutoffDate now (noticeOr12 (nineToFive (weekdayName date) n)))
                            [noonBooking] (weekdayName date) [nineToFive (weekdayName date) n]
                            (h @ '':00''))
             ALL_TIMES"
proof -
  let ?wd = "weekdayName date"
  let ?st = "nineToFive ?wd n"
  let ?c = "cutoffDate now (noticeOr12 ?st)"
  let ?cand = "filter (\<lambda>k. k \<notin> set (bookedLegacyOf snap)) (map (\<lambda>h. h @ '':00'') ALL_TIMES)"
  have act: "isActive ?st" by (simp add: isActive_def nineToFive_def)
  have av: "availableOn ?wd ?st" by (simp add: availableOn_def getDayAvail_nineToFive)
  have "\<exists>res. slotLoop date ?c [noonBooking] ?wd [?st] ?cand = Inr res"
    by (rule slotLoop_total) (simp add: staffLoop_nineToFive del: staffLoop.simps)
  then obtain res where run: "slotLoop date ?c [noonBooking] ?wd [?st] ?cand = Inr res" ..
  have res: "res = filter (\<lambda>h. h @ '':00'' \<notin> set (bookedLegacyOf snap)
                       \<and> slotKept date ?c [noonBooking] ?wd [?st] (h @ '':00'')) ALL_TIMES"
    using slotLoop_Inr [OF run] by (simp add: candidate_labels)
  have "loadTimes now (Some date) bl (Inr snap) (Inr [noonBooking]) (Inr [?st]) = res"
    using assms act av run by (simp add: loadTimes_def loadTimesTry_def Let_def)
  then show ?thesis using res by simp
qed


lemma example_slots:
  "timeToMinutes ''11:00'' = Some 660" "timeToMinutes ''12:00'' = Some 720"
  "timeToMinutes ''13:00'' = Some 780" "timeToMinutes ''14:00'' = Some 840"
  "parseInt ''11'' = Some 11" "parseInt ''14'' = Some 14"
  by code_simp+

text \<open>
  Claim C2: with one staff member working 09:00 to 17:00 on the weekday of the date, a
  travel buffer of 30 minutes and one booking from 12:00 to 13:00, a slot at minute \<open>m\<close>
  collides exactly when \<open>690 \<le> m < 810\<close>.  Slots 12 and 13 are never in the result of
  \<open>loadTimes\<close>; slots 11 and 14 are in it whenever the date is not blocked, slot 11 is not
  before the notice cut-off, and the override removes neither 11:00 nor 14:00.
\<close>

theorem buffer_example:
  "collides (Some m) 30 [noonBooking] = Inr (690 \<le> m \<and> m < 810)
   \<and> ''12'' \<notin> set (loadTimes now (Some date) bl (Inr snap) (Inr [noonBooking])
                        (Inr [nineToFive (weekdayName date) n]))
   \<and> ''13'' \<notin> set (loadTimes now (Some date) bl (Inr snap) (Inr [noonBooking])
                        (Inr [nineToFive (weekdayName date) n]))
   \<and> (dayOf date \<notin> bl
        \<and> cutoffDate now (noticeOr12 (nineToFive (weekdayName date) n))
             \<le> dayOf date * msPerDay + 11 * msPerHour
        \<and> ''11:00'' \<notin> set (bookedLegacyOf snap) \<and> ''14:00'' \<notin> set (bookedLegacyOf snap)
        \<longrightarrow> ''11'' \<in> set (loadTimes now (Some date) bl (Inr snap) (Inr [noonBooking])
                              (Inr [nineToFive (weekdayName date) n]))
            \<and> ''14'' \<in> set (loadTimes now (Some date) bl (Inr snap) (Inr [noonBooking])
                              (Inr [nineToFive (weekdayName date) n])))"
proof -
  let ?res = "loadTimes now (Some date) bl (Inr snap) (Inr [noonBooking])
                (Inr [nineToFive (weekdayName date) n])"
  have a: "collides (Some m) 30 [noonBooking] = Inr (690 \<le> m \<and> m < 810)"
    by (simp add: collides_noon withinJs_def del: collides.simps)
  have out: "''12'' \<notin> set ?res \<and> ''13'' \<notin> set ?res"
  proof (cases "dayOf date \<in> bl")
    case True
    then have "?res = []" by (simp add: loadTimes_def loadTimesTry_def)
    then show ?thesis by simp
  next
    case False
    show ?thesis
      unfolding loadTimes_nineToFive [OF False]
      by (simp add: slotKept_def staffLoop_nineToFive example_slots withinJs_def
          del: staffLoop.simps)
  qed
  have inn: "dayOf date \<notin> bl
        \<and> cutoffDate now (noticeOr12 (nineToFive (weekdayName date) n))
             \<le> dayOf date * msPerDay + 11 * msPerHour
        \<and> ''11:00'' \<notin> set (bookedLegacyOf snap) \<and> ''14:00'' \<notin> set (bookedLegacyOf snap)
        \<longrightarrow> ''11'' \<in> set ?res \<and> ''14'' \<in> set ?res"
  proof
    assume h: "dayOf date \<notin> bl
        \<and> cutoffDate now (noticeOr12 (nineToFive (weekdayName date) n))
             \<le> dayOf date * msPerDay + 11 * msPerHour
        \<and> ''11:00'' \<notin> set (bookedLegacyOf snap) \<and> ''14:00'' \<notin> set (bookedLegacyOf snap)"
    then have nb: "dayOf date \<notin> bl" by simp
    have grid: "''11'' \<in> set ALL_TIMES" "''14'' \<in> set ALL_TIMES"
      by (simp_all add: ALL_TIMES_def)
    have later: "cutoffDate now (noticeOr12 (nineToFive (weekdayName date) n))
             \<le> dayOf date * msPerDay + 14 * msPerHour"
      using h by (simp add: msPerHour_def)
    show "''11'' \<in> set ?res \<and> ''14'' \<in> set ?res"
      unfolding loadTimes_nineToFive [OF nb]
      using h grid later
      by (simp add: slotKept_def staffLoop_nineToFive example_slots withinJs_def
          del: staffLoop.simps)
  qed
  show ?thesis using a out inn by blast
qed

theorem buffer_example_witness:
  "dayOf (7 * msPerDay) \<notin> {}
   \<and> cutoffDate 0 (noticeOr12 (nineToFive (weekdayName (7 * msPerDay)) None))
        \<le> dayOf (7 * msPerDay) * msPerDay + 11 * msPerHour
   \<and> ''11:00'' \<notin> set (bookedLegacyOf None) \<and> ''14:00'' \<notin> set (bookedLegacyOf None)
   \<and> ''11'' \<in> set (loadTimes 0 (Some (7 * msPerDay)) {} (Inr None) (Inr [noonBooking])
                       (Inr [nineToFive (weekdayName (7 * msPerDay)) None]))"
proof -
  have c: "cutoffDate 0 (noticeOr12 (nineToFive (weekdayName (7 * msPerDay)) None))
        \<le> dayOf (7 * msPerDay) * msPerDay + 11 * msPerHour"
    by code_simp
  have b: "''11:00'' \<notin> set (bookedLegacyOf None) \<and> ''14:00'' \<notin> set (bookedLegacyOf None)"
    by (simp add: bookedLegacyOf_def)
  show ?thesis
    using c b buffer_example [of _ 0 "7 * msPerDay" "{}" None None]
    by blast
qed


section \<open>Booking submission: proofs\<close>

lemma onSubmitPromo_rejects:
  "requiredMissing form sd st \<or> products form = []
     \<Longrightarrow> \<exists>msg. onSubmitPromo out oid form sd st = [Alert msg]"
  by (auto simp add: requiredMissing_def onSubmitPromo_def split: option.splits)

lemma onSubmitOffice_rejects:
  "requiredMissing form sd st \<Longrightarrow> \<exists>msg. onSubmitOffice out oid form q sd st = [Alert msg]"
  by (auto simp add: requiredMissing_def onSubmitOffice_def split: option.splits)

text \<open>
  Claim C5: a submission with a required field missing must stop at a validation alert
  before anything is written.  The promotion page and the newer office page do so: with
  no date, no time slot, no name, email or phone, or no address line 1, town or postcode
  (and, on the promotion page, no supplies choice) their trace holds no write.  The
  home-clean page and the older office page test the date, the time slot and the contact
  fields only: for a form without address line 1, town and postcode they store the
  booking, with an empty postcode.
\<close>

theorem submit_validation:
  "(requiredMissing form sd st \<or> products form = []
      \<longrightarrow> \<not> list_ex isWrite (onSubmitPromo out oid form sd st))
   \<and> (requiredMissing form sd st
      \<longrightarrow> \<not> list_ex isWrite (onSubmitOffice out oid form q sd st))
   \<and> postcode exampleHomeForm = [] \<and> addressLine1 exampleHomeForm = []
   \<and> town exampleHomeForm = []
   \<and> requiredMissing exampleHomeForm (Some (7 * msPerDay)) ''10''
   \<and> list_ex isWrite (onSubmitHome zap out oid exampleHomeForm (Some (7 * msPerDay)) ''10'')
   \<and> list_ex isWrite (onSubmitOfficeOld out oid exampleHomeForm q (Some (7 * msPerDay)) ''10'')
   \<and> map postcodeOf (storedBookings
         (onSubmitHome False allOk ''LUX12345'' exampleHomeForm (Some (7 * msPerDay)) ''10''))
       = ['''']"
proof -
  have a: "requiredMissing form sd st \<or> products form = []
      \<longrightarrow> \<not> list_ex isWrite (onSubmitPromo out oid form sd st)"
    using onSubmitPromo_rejects [of form sd st out oid] by auto
  have b: "requiredMissing form sd st
      \<longrightarrow> \<not> list_ex isWrite (onSubmitOffice out oid form q sd st)"
    using onSubmitOffice_rejects [of form sd st out oid q] by auto
  have c: "postcode exampleHomeForm = [] \<and> addressLine1 exampleHomeForm = []
             \<and> town exampleHomeForm = []"
    by (simp add: exampleHomeForm_def)
  have d: "requiredMissing exampleHomeForm (Some (7 * msPerDay)) ''10''"
    by (simp add: requiredMissing_def exampleHomeForm_def)
  have e: "list_ex isWrite (onSubmitHome zap out oid exampleHomeForm (Some (7 * msPerDay)) ''10'')"
    by (simp add: onSubmitHome_def exampleHomeForm_def Let_def)
  have f: "list_ex isWrite (onSubmitOfficeOld out oid exampleHomeForm q (Some (7 * msPerDay)) ''10'')"
    by (simp add: onSubmitOfficeOld_def exampleHomeForm_def Let_def)
  have g: "map postcodeOf (storedBookings
         (onSubmitHome False allOk ''LUX12345'' exampleHomeForm (Some (7 * msPerDay)) ''10''))
       = ['''']"
    by code_simp
  show ?thesis using a b c d e f g by blast
qed

theorem submit_validation_witness:
  "requiredMissing exampleHomeForm (Some (7 * msPerDay)) ''10''
   \<and> \<not> list_ex isWrite (onSubmitPromo allOk ''LUX12345'' exampleHomeForm (Some (7 * msPerDay)) ''10'')"
proof -
  have d: "requiredMissing exampleHomeForm (Some (7 * msPerDay)) ''10''"
    by (simp add: requiredMissing_def exampleHomeForm_def)
  show ?thesis
    using d submit_validation [of exampleHomeForm "Some (7 * msPerDay)" "''10''" allOk "''LUX12345''"]
    by blast
qed

end
